theory Spec2Isabelle
  imports
    Complex_Main
    "HOL-Library.Multiset"
    "HOL-Library.Char_ord"
    "HOL-Library.List_Lexorder"
    "HOL-Library.Product_Lexorder"
    "HOL-Library.Option_ord"
begin

section \<open>SQL values and operators\<close>

text \<open>
  The transforms of the repository are SQL statements sent to PostgreSQL from Python.
  A table is modelled as the list of its rows, a row as a record, and a nullable column
  as an \<open>option\<close> (\<open>None\<close> is SQL \<open>NULL\<close>).  \<open>NUMERIC\<close> values are exact rationals,
  \<open>INTEGER\<close>/\<open>BIGINT\<close> values are integers, \<open>TEXT\<close> values are strings.  The order of
  the rows of a table is not fixed by SQL; the list order of the model is one possible
  order and the theorems below speak about membership only.  A statement that raises
  an error returns \<open>Inl\<close> of the error.
\<close>

datatype sql_error = DivisionByZero | CardinalityViolation | InvalidTextRepresentation

definition sql_lift2 :: "('a \<Rightarrow> 'b \<Rightarrow> 'c) \<Rightarrow> 'a option \<Rightarrow> 'b option \<Rightarrow> 'c option" where
  "sql_lift2 f a b =
     (case a of None \<Rightarrow> None | Some x \<Rightarrow> (case b of None \<Rightarrow> None | Some y \<Rightarrow> Some (f x y)))"

definition sql_add :: "rat option \<Rightarrow> rat option \<Rightarrow> rat option" where
  "sql_add = sql_lift2 (+)"

definition sql_sub :: "rat option \<Rightarrow> rat option \<Rightarrow> rat option" where
  "sql_sub = sql_lift2 (-)"

definition sql_mul :: "rat option \<Rightarrow> rat option \<Rightarrow> rat option" where
  "sql_mul = sql_lift2 (*)"

definition sql_numeric :: "int option \<Rightarrow> rat option" where
  \<comment> \<open>the implicit cast of an INTEGER operand to NUMERIC\<close>
  "sql_numeric = map_option of_int"

definition sql_div :: "rat option \<Rightarrow> rat option \<Rightarrow> sql_error + rat option" where
  \<comment> \<open>the operator is strict: a NULL operand gives NULL before the divisor is looked at\<close>
  "sql_div a b =
     (case a of None \<Rightarrow> Inr None
      | Some x \<Rightarrow> (case b of None \<Rightarrow> Inr None
                   | Some y \<Rightarrow> if y = 0 then Inl DivisionByZero else Inr (Some (x / y))))"

definition sql_bind :: "sql_error + 'a \<Rightarrow> ('a \<Rightarrow> sql_error + 'b) \<Rightarrow> sql_error + 'b" where
  "sql_bind m f = (case m of Inl e \<Rightarrow> Inl e | Inr x \<Rightarrow> f x)"

definition sql_eq :: "'a option \<Rightarrow> 'a option \<Rightarrow> bool option" where
  "sql_eq = sql_lift2 (=)"

definition sql_gt :: "rat option \<Rightarrow> rat option \<Rightarrow> bool option" where
  "sql_gt = sql_lift2 (\<lambda>x y. y < x)"

definition sql_and :: "bool option \<Rightarrow> bool option \<Rightarrow> bool option" where
  "sql_and a b =
     (if a = Some False \<or> b = Some False then Some False
      else if a = Some True \<and> b = Some True then Some True else None)"

definition sql_not :: "bool option \<Rightarrow> bool option" where
  "sql_not = map_option Not"

definition is_true :: "bool option \<Rightarrow> bool" where
  \<comment> \<open>a WHERE, ON or WHEN condition selects only when it is true (not false, not NULL)\<close>
  "is_true c = (c = Some True)"

definition coalesce :: "'a option \<Rightarrow> 'a option \<Rightarrow> 'a option" where
  "coalesce a b = (case a of None \<Rightarrow> b | Some x \<Rightarrow> Some x)"

definition nullif :: "'a option \<Rightarrow> 'a \<Rightarrow> 'a option" where
  "nullif a v = (if a = Some v then None else a)"

definition sql_sum :: "rat option list \<Rightarrow> rat option" where
  \<comment> \<open>SUM skips NULL inputs and is NULL when no non-NULL input is left\<close>
  "sql_sum vs = (if \<forall>v \<in> set vs. v = None then None else Some (sum_list (map (case_option 0 id) vs)))"

definition sql_sum_int :: "int option list \<Rightarrow> int option" where
  "sql_sum_int vs = (if \<forall>v \<in> set vs. v = None then None else Some (sum_list (map (case_option 0 id) vs)))"

definition bool_or :: "bool option list \<Rightarrow> bool option" where
  "bool_or vs = (if \<forall>v \<in> set vs. v = None then None else Some (Some True \<in> set vs))"

definition inner_join :: "('a \<Rightarrow> 'b \<Rightarrow> bool option) \<Rightarrow> 'a list \<Rightarrow> 'b list \<Rightarrow> ('a \<times> 'b) list" where
  "inner_join on ls rs = concat (map (\<lambda>l. map (Pair l) (filter (\<lambda>r. is_true (on l r)) rs)) ls)"

definition left_join :: "('a \<Rightarrow> 'b \<Rightarrow> bool option) \<Rightarrow> 'a list \<Rightarrow> 'b list \<Rightarrow> ('a \<times> 'b option) list" where
  "left_join on ls rs =
     concat (map (\<lambda>l. case filter (\<lambda>r. is_true (on l r)) rs of
                         [] \<Rightarrow> [(l, None)]
                       | ms \<Rightarrow> map (\<lambda>r. (l, Some r)) ms) ls)"

definition col :: "('r \<Rightarrow> 'a option) \<Rightarrow> 'r option \<Rightarrow> 'a option" where
  \<comment> \<open>a nullable column of the NULL-extended side of a LEFT JOIN\<close>
  "col f r = (case r of None \<Rightarrow> None | Some x \<Rightarrow> f x)"

fun sql_rows :: "('a \<Rightarrow> sql_error + 'b) \<Rightarrow> 'a list \<Rightarrow> sql_error + 'b list" where
  "sql_rows f [] = Inr []"
| "sql_rows f (x # xs) =
     (case f x of Inl e \<Rightarrow> Inl e
      | Inr y \<Rightarrow> (case sql_rows f xs of Inl e \<Rightarrow> Inl e | Inr ys \<Rightarrow> Inr (y # ys)))"

definition with_keys :: "nat \<Rightarrow> 'a list \<Rightarrow> (nat \<times> 'a) list" where
  \<comment> \<open>surrogate keys handed out by a sequence, in insertion order, from its next value\<close>
  "with_keys k xs = zip [k ..< k + length xs] xs"

definition scalar_subquery :: "'a option list \<Rightarrow> sql_error + 'a option" where
  \<comment> \<open>a subquery used as an expression: NULL for no row, an error for more than one\<close>
  "scalar_subquery vs = (case vs of [] \<Rightarrow> Inr None | [v] \<Rightarrow> Inr v | _ \<Rightarrow> Inl CardinalityViolation)"

section \<open>Text functions\<close>

text \<open>
  \<open>LOWER\<close>, Python's \<open>str.lower\<close> and \<open>str.strip\<close> are modelled on ASCII text:
  a character of the model is one byte.
\<close>

definition lower_char :: "char \<Rightarrow> char" where
  "lower_char c =
     (case map_of (zip ''ABCDEFGHIJKLMNOPQRSTUVWXYZ'' ''abcdefghijklmnopqrstuvwxyz'') c of
        None \<Rightarrow> c | Some l \<Rightarrow> l)"

definition lower :: "string \<Rightarrow> string" where
  "lower s = map lower_char s"

definition replace_char :: "char \<Rightarrow> char \<Rightarrow> string \<Rightarrow> string" where
  \<comment> \<open>\<open>REPLACE(s, from, to)\<close> for one-character patterns\<close>
  "replace_char a b s = map (\<lambda>c. if c = a then b else c) s"

definition is_space :: "char \<Rightarrow> bool" where
  \<comment> \<open>the ASCII characters that Python's \<open>str.strip\<close> removes\<close>
  "is_space c = (c \<in> set [CHR '' '', CHR 0x09, CHR 0x0A, CHR 0x0B, CHR 0x0C, CHR 0x0D,
                            CHR 0x1C, CHR 0x1D, CHR 0x1E, CHR 0x1F])"

definition strip :: "string \<Rightarrow> string" where
  "strip s = rev (dropWhile is_space (rev (dropWhile is_space s)))"

fun startswith :: "string \<Rightarrow> string \<Rightarrow> bool" where
  \<comment> \<open>\<open>startswith s p\<close>: Python's \<open>s.startswith(p)\<close>\<close>
  "startswith s [] = True"
| "startswith [] (p # ps) = False"
| "startswith (c # cs) (p # ps) = (c = p \<and> startswith cs ps)"

fun contains :: "string \<Rightarrow> string \<Rightarrow> bool" where
  \<comment> \<open>\<open>contains sub s\<close>: Python's \<open>sub in s\<close>, SQL's \<open>s LIKE '%sub%'\<close> for a plain \<open>sub\<close>\<close>
  "contains sub [] = (sub = [])"
| "contains sub (c # cs) = (startswith (c # cs) sub \<or> contains sub cs)"

section \<open>Staging tables read by the fact build\<close>

text \<open>
  The rows of \<open>staging.stg_orders\<close>, \<open>staging.stg_order_lines\<close>,
  \<open>staging.stg_product_sku_map\<close> and \<open>staging.stg_recipes\<close>, and of the dimensions.
  Only the columns that the statements of \<open>build_dimensions\<close> and \<open>build_facts\<close> compute
  with are kept; the status, address and timestamp columns that are copied through
  unchanged are left out.  The table definitions (\<open>sql/schema\<close>) are not part of the
  sources, so every column is nullable except the surrogate keys, which are values of
  a sequence.
\<close>

record stg_order =
  o_order_id :: "int option"
  o_order_number :: "string option"
  o_email :: "string option"
  o_subtotal :: "rat option"
  o_shipping :: "rat option"
  o_taxes :: "rat option"
  o_total :: "rat option"
  o_discount_amount :: "rat option"
  o_refunded_amount :: "rat option"
  o_shipping_method :: "string option"
  o_source :: "string option"
  o_created_at :: "int option"

record stg_order_line =
  ol_order_id :: "int option"
  ol_line_number :: "int option"
  ol_lineitem_name :: "string option"
  ol_lineitem_quantity :: "int option"
  ol_lineitem_price :: "rat option"
  ol_lineitem_discount :: "rat option"

record stg_product_sku_map =
  skm_internal_sku :: "string option"
  skm_lineitem_name :: "string option"

record stg_recipe =
  r_recipe_id :: "string option"
  r_variant :: "string option"
  r_batch_size_ml :: "int option"
  r_ingredient_match :: "string option"
  r_amount_ml :: "rat option"
  r_material_id :: "string option"

record dim_customer =
  dc_customer_key :: nat
  dc_customer_id_hash :: "string option"
  dc_customer_id :: "int option"
  dc_accepts_email_marketing :: "bool option"
  dc_accepts_sms_marketing :: "bool option"
  dc_first_order_date :: "int option"
  dc_total_orders :: "int option"
  dc_total_spent :: "rat option"
  dc_customer_segment :: "string option"

record dim_channel =
  ch_channel_key :: nat
  ch_channel_code :: "string option"

record dim_shipping_method =
  sm_shipping_method_key :: nat
  sm_shipping_method_code :: "string option"
  sm_shipping_method_name :: "string option"
  sm_is_local_delivery :: "bool option"

record dim_product =
  dp_product_key :: nat
  dp_internal_sku :: "string option"
  dp_recipe_id :: "string option"
  dp_size_ml :: "int option"

record dim_material =
  dm_material_key :: nat
  dm_material_id :: "string option"
  dm_cost_per_unit :: "rat option"
  dm_cost_per_ml :: "rat option"
  dm_has_known_cost :: "bool option"

section \<open>build_facts: warehouse.fact_order\<close>

record order_line_summary_row =
  ols_order_id :: "int option"
  ols_unit_count :: "int option"
  ols_line_item_count :: "int option"
  ols_calculated_gross :: "rat option"

record fact_order =
  fo_order_key :: nat
  fo_order_id :: "int option"
  fo_order_number :: "string option"
  fo_customer_key :: "nat option"
  fo_channel_key :: "nat option"
  fo_shipping_method_key :: "nat option"
  fo_gross_product_sales :: "rat option"
  fo_order_discount_amount :: "rat option"
  fo_subtotal :: "rat option"
  fo_shipping_amount :: "rat option"
  fo_tax_amount :: "rat option"
  fo_total_amount :: "rat option"
  fo_refunded_amount :: "rat option"
  fo_net_sales :: "rat option"
  fo_line_item_count :: "int option"
  fo_unit_count :: "int option"

definition order_line_summary :: "stg_order_line list \<Rightarrow> order_line_summary_row list" where
  \<comment> \<open>\<open>GROUP BY order_id\<close>: one row per distinct value, the NULLs forming one group\<close>
  "order_line_summary lines =
     map (\<lambda>oid. let g = filter (\<lambda>l. ol_order_id l = oid) lines in
            \<lparr> ols_order_id = oid,
              ols_unit_count = sql_sum_int (map ol_lineitem_quantity g),
              ols_line_item_count = Some (int (length g)),
              ols_calculated_gross =
                sql_sum (map (\<lambda>l. sql_mul (ol_lineitem_price l) (sql_numeric (ol_lineitem_quantity l))) g) \<rparr>)
         (remdups (map ol_order_id lines))"

definition customer_id_hash_of :: "(string \<Rightarrow> string) \<Rightarrow> string option \<Rightarrow> string option" where
  \<comment> \<open>\<open>encode(sha256(LOWER(email)::bytea), 'hex')\<close>; \<open>sha256_hex\<close> stands for the database's
      SHA-256 followed by hex encoding, and the cast to \<open>bytea\<close> keeps the bytes\<close>
  "customer_id_hash_of sha256_hex email = map_option (\<lambda>e. sha256_hex (lower e)) email"

definition shipping_method_code_of :: "string option \<Rightarrow> string option" where
  \<comment> \<open>\<open>LOWER(REPLACE(shipping_method, ' ', '_'))\<close>\<close>
  "shipping_method_code_of m = map_option (\<lambda>s. lower (replace_char (CHR '' '') (CHR ''_'') s)) m"

type_synonym fact_order_source =
  "(((stg_order \<times> order_line_summary_row option) \<times> dim_customer option)
      \<times> dim_channel option) \<times> dim_shipping_method option"

definition fact_order_from ::
  "(string \<Rightarrow> string) \<Rightarrow> stg_order list \<Rightarrow> stg_order_line list \<Rightarrow> dim_customer list \<Rightarrow>
   dim_channel list \<Rightarrow> dim_shipping_method list \<Rightarrow> fact_order_source list" where
  "fact_order_from sha256_hex orders lines dcs chs sms =
     left_join (\<lambda>(((so, ols), dc), ch) sm.
                  sql_eq (shipping_method_code_of (o_shipping_method so)) (sm_shipping_method_code sm))
       (left_join (\<lambda>((so, ols), dc) ch. sql_eq (map_option lower (o_source so)) (ch_channel_code ch))
          (left_join (\<lambda>(so, ols) dc.
                        sql_eq (customer_id_hash_of sha256_hex (o_email so)) (dc_customer_id_hash dc))
             (left_join (\<lambda>so ols. sql_eq (o_order_id so) (ols_order_id ols))
                orders (order_line_summary lines))
             dcs)
          chs)
       sms"

definition web_channel_key :: "dim_channel list \<Rightarrow> sql_error + nat option" where
  \<comment> \<open>\<open>(SELECT channel_key FROM warehouse.dim_channel WHERE channel_code = 'web')\<close>\<close>
  "web_channel_key chs =
     scalar_subquery
       (map (\<lambda>c. Some (ch_channel_key c))
            (filter (\<lambda>c. is_true (sql_eq (ch_channel_code c) (Some ''web''))) chs))"

definition any_shipping_method_key :: "dim_shipping_method list \<Rightarrow> nat option" where
  \<comment> \<open>\<open>(SELECT shipping_method_key FROM warehouse.dim_shipping_method LIMIT 1)\<close>\<close>
  "any_shipping_method_key sms =
     (case take 1 sms of [] \<Rightarrow> None | s # _ \<Rightarrow> Some (sm_shipping_method_key s))"

definition fact_order_row ::
  "dim_channel list \<Rightarrow> dim_shipping_method list \<Rightarrow> nat \<times> fact_order_source \<Rightarrow> sql_error + fact_order" where
  "fact_order_row chs sms = (\<lambda>(k, ((((so, ols), dc), ch), sm)).
     sql_bind (case ch of Some c \<Rightarrow> Inr (Some (ch_channel_key c)) | None \<Rightarrow> web_channel_key chs)
       (\<lambda>channel_key. Inr
         \<lparr> fo_order_key = k,
           fo_order_id = o_order_id so,
           fo_order_number = o_order_number so,
           fo_customer_key = map_option dc_customer_key dc,
           fo_channel_key = channel_key,
           fo_shipping_method_key =
             coalesce (map_option sm_shipping_method_key sm) (any_shipping_method_key sms),
           fo_gross_product_sales =
             coalesce (col ols_calculated_gross ols) (sql_add (o_subtotal so) (o_discount_amount so)),
           fo_order_discount_amount = o_discount_amount so,
           fo_subtotal = o_subtotal so,
           fo_shipping_amount = o_shipping so,
           fo_tax_amount = o_taxes so,
           fo_total_amount = o_total so,
           fo_refunded_amount = o_refunded_amount so,
           fo_net_sales = sql_sub (o_subtotal so) (o_refunded_amount so),
           fo_line_item_count = coalesce (col ols_line_item_count ols) (Some 1),
           fo_unit_count = coalesce (col ols_unit_count ols) (Some 1) \<rparr>))"

definition build_fact_order ::
  "(string \<Rightarrow> string) \<Rightarrow> nat \<Rightarrow> stg_order list \<Rightarrow> stg_order_line list \<Rightarrow> dim_customer list \<Rightarrow>
   dim_channel list \<Rightarrow> dim_shipping_method list \<Rightarrow> sql_error + fact_order list" where
  "build_fact_order sha256_hex k orders lines dcs chs sms =
     sql_rows (fact_order_row chs sms)
       (with_keys k (fact_order_from sha256_hex orders lines dcs chs sms))"

section \<open>build_facts: warehouse.fact_order_line\<close>

record line_with_allocation =
  lwa_order_id :: "int option"
  lwa_line_number :: "int option"
  lwa_lineitem_name :: "string option"
  lwa_quantity :: "int option"
  lwa_unit_price :: "rat option"
  lwa_gross_line_revenue :: "rat option"
  lwa_line_discount :: "rat option"
  lwa_order_key :: nat
  lwa_order_discount_amount :: "rat option"
  lwa_gross_product_sales :: "rat option"
  lwa_allocated_order_discount :: "rat option"

record fact_order_line =
  fol_order_line_key :: nat
  fol_order_key :: nat
  fol_order_id :: "int option"
  fol_line_number :: "int option"
  fol_product_key :: "nat option"
  fol_quantity :: "int option"
  fol_unit_price :: "rat option"
  fol_gross_line_revenue :: "rat option"
  fol_line_discount :: "rat option"
  fol_allocated_order_discount :: "rat option"
  fol_net_line_revenue :: "rat option"
  fol_estimated_cogs :: "rat option"
  fol_has_missing_cost :: "bool option"
  fol_gross_margin :: "rat option"
  fol_margin_percent :: "rat option"

definition gross_line_revenue :: "stg_order_line \<Rightarrow> rat option" where
  "gross_line_revenue ol = sql_mul (ol_lineitem_price ol) (sql_numeric (ol_lineitem_quantity ol))"

definition allocated_order_discount :: "stg_order_line \<Rightarrow> fact_order \<Rightarrow> sql_error + rat option" where
  \<comment> \<open>the CASE evaluates its THEN branch only when the WHEN condition is true\<close>
  "allocated_order_discount ol fo =
     (if is_true (sql_gt (fo_gross_product_sales fo) (Some 0))
      then sql_bind (sql_div (gross_line_revenue ol) (fo_gross_product_sales fo))
             (\<lambda>share. Inr (sql_mul share (fo_order_discount_amount fo)))
      else Inr (Some 0))"

definition lwa_row :: "stg_order_line \<times> fact_order \<Rightarrow> sql_error + line_with_allocation" where
  "lwa_row = (\<lambda>(ol, fo).
     sql_bind (allocated_order_discount ol fo)
       (\<lambda>alloc. Inr
         \<lparr> lwa_order_id = ol_order_id ol,
           lwa_line_number = ol_line_number ol,
           lwa_lineitem_name = ol_lineitem_name ol,
           lwa_quantity = ol_lineitem_quantity ol,
           lwa_unit_price = ol_lineitem_price ol,
           lwa_gross_line_revenue = gross_line_revenue ol,
           lwa_line_discount = ol_lineitem_discount ol,
           lwa_order_key = fo_order_key fo,
           lwa_order_discount_amount = fo_order_discount_amount fo,
           lwa_gross_product_sales = fo_gross_product_sales fo,
           lwa_allocated_order_discount = alloc \<rparr>))"

definition line_with_allocation_cte ::
  "stg_order_line list \<Rightarrow> fact_order list \<Rightarrow> sql_error + line_with_allocation list" where
  "line_with_allocation_cte lines fos =
     sql_rows lwa_row (inner_join (\<lambda>ol fo. sql_eq (ol_order_id ol) (fo_order_id fo)) lines fos)"

definition fact_order_line_row ::
  "nat \<times> ((line_with_allocation \<times> stg_product_sku_map option) \<times> dim_product option) \<Rightarrow> fact_order_line" where
  "fact_order_line_row = (\<lambda>(k, ((lwa, skm), dp)).
     \<lparr> fol_order_line_key = k,
       fol_order_key = lwa_order_key lwa,
       fol_order_id = lwa_order_id lwa,
       fol_line_number = lwa_line_number lwa,
       fol_product_key = map_option dp_product_key dp,
       fol_quantity = lwa_quantity lwa,
       fol_unit_price = lwa_unit_price lwa,
       fol_gross_line_revenue = lwa_gross_line_revenue lwa,
       fol_line_discount = lwa_line_discount lwa,
       fol_allocated_order_discount = lwa_allocated_order_discount lwa,
       fol_net_line_revenue =
         sql_sub (sql_sub (lwa_gross_line_revenue lwa) (lwa_line_discount lwa))
                 (lwa_allocated_order_discount lwa),
       fol_estimated_cogs = None,
       fol_has_missing_cost = None,
       fol_gross_margin = None,
       fol_margin_percent = None \<rparr>)"

definition build_fact_order_line ::
  "nat \<Rightarrow> stg_order_line list \<Rightarrow> fact_order list \<Rightarrow> stg_product_sku_map list \<Rightarrow>
   dim_product list \<Rightarrow> sql_error + fact_order_line list" where
  "build_fact_order_line k lines fos skms dps =
     sql_bind (line_with_allocation_cte lines fos)
       (\<lambda>lwas. Inr (map fact_order_line_row
          (with_keys k
             (left_join (\<lambda>(lwa, skm) dp. sql_eq (col skm_internal_sku skm) (dp_internal_sku dp))
                (left_join (\<lambda>lwa skm. sql_eq (lwa_lineitem_name lwa) (skm_lineitem_name skm)) lwas skms)
                dps))))"

section \<open>build_facts: warehouse.fact_cogs_estimate and the COGS roll-up\<close>

record fact_cogs_estimate =
  fce_order_line_key :: nat
  fce_product_key :: "nat option"
  fce_material_key :: "nat option"
  fce_ingredient_name :: "string option"
  fce_amount_ml :: "rat option"
  fce_cost_per_ml :: "rat option"
  fce_line_cost :: "rat option"
  fce_has_known_cost :: "bool option"

record cogs_summary_row =
  cs_order_line_key :: nat
  cs_total_cogs :: "rat option"
  cs_has_missing_cost :: "bool option"

definition is_not_null :: "'a option \<Rightarrow> bool option" where
  "is_not_null a = Some (a \<noteq> None)"

definition line_cost :: "stg_recipe \<Rightarrow> dim_material option \<Rightarrow> rat option" where
  "line_cost r dm =
     (if is_true (sql_and (col dm_has_known_cost dm) (is_not_null (col dm_cost_per_ml dm)))
      then sql_mul (r_amount_ml r) (col dm_cost_per_ml dm)
      else if is_true (sql_and (col dm_has_known_cost dm) (is_not_null (col dm_cost_per_unit dm)))
      then col dm_cost_per_unit dm
      else Some 0)"

definition recipe_matches :: "dim_product \<Rightarrow> stg_recipe \<Rightarrow> bool option" where
  \<comment> \<open>\<open>dp.recipe_id = r.recipe_id AND r.batch_size_ml = dp.size_ml AND r.variant = 'final'\<close>\<close>
  "recipe_matches dp r =
     sql_and (sql_and (sql_eq (dp_recipe_id dp) (r_recipe_id r))
                      (sql_eq (r_batch_size_ml r) (dp_size_ml dp)))
             (sql_eq (r_variant r) (Some ''final''))"

definition fact_cogs_estimate_row ::
  "((fact_order_line \<times> dim_product) \<times> stg_recipe) \<times> dim_material option \<Rightarrow> fact_cogs_estimate" where
  "fact_cogs_estimate_row = (\<lambda>(((fol, dp), r), dm).
     \<lparr> fce_order_line_key = fol_order_line_key fol,
       fce_product_key = fol_product_key fol,
       fce_material_key = map_option dm_material_key dm,
       fce_ingredient_name = r_ingredient_match r,
       fce_amount_ml = r_amount_ml r,
       fce_cost_per_ml = coalesce (col dm_cost_per_ml dm) (col dm_cost_per_unit dm),
       fce_line_cost = line_cost r dm,
       fce_has_known_cost = coalesce (col dm_has_known_cost dm) (Some False) \<rparr>)"

definition build_fact_cogs_estimate ::
  "fact_order_line list \<Rightarrow> dim_product list \<Rightarrow> stg_recipe list \<Rightarrow> dim_material list \<Rightarrow>
   fact_cogs_estimate list" where
  "build_fact_cogs_estimate fols dps recipes dms =
     map fact_cogs_estimate_row
       (filter (\<lambda>(((fol, dp), r), dm). fol_product_key fol \<noteq> None)
          (left_join (\<lambda>((fol, dp), r) dm. sql_eq (r_material_id r) (dm_material_id dm))
             (inner_join (\<lambda>(fol, dp) r. recipe_matches dp r)
                (inner_join (\<lambda>fol dp. sql_eq (fol_product_key fol) (Some (dp_product_key dp))) fols dps)
                recipes)
             dms))"

definition cogs_summary :: "fact_cogs_estimate list \<Rightarrow> cogs_summary_row list" where
  "cogs_summary fces =
     map (\<lambda>key. let g = filter (\<lambda>e. fce_order_line_key e = key) fces in
            \<lparr> cs_order_line_key = key,
              cs_total_cogs = sql_sum (map fce_line_cost g),
              cs_has_missing_cost = bool_or (map (\<lambda>e. sql_not (fce_has_known_cost e)) g) \<rparr>)
         (remdups (map fce_order_line_key fces))"

definition unit_net_revenue :: "fact_order_line \<Rightarrow> sql_error + rat option" where
  \<comment> \<open>\<open>net_line_revenue / NULLIF(quantity, 0)\<close>\<close>
  "unit_net_revenue fol =
     sql_div (fol_net_line_revenue fol) (sql_numeric (nullif (fol_quantity fol) 0))"

definition update_cogs :: "cogs_summary_row list \<Rightarrow> fact_order_line \<Rightarrow> sql_error + fact_order_line" where
  \<comment> \<open>the first UPDATE: rows of \<open>fact_order_line\<close> joined to their \<open>cogs_summary\<close> row\<close>
  "update_cogs css fol =
     (case find (\<lambda>cs. fol_order_line_key fol = cs_order_line_key cs) css of
        None \<Rightarrow> Inr fol
      | Some cs \<Rightarrow>
          sql_bind (unit_net_revenue fol) (\<lambda>unit_net.
          sql_bind (if is_true (sql_gt (fol_net_line_revenue fol) (Some 0))
                    then sql_bind (sql_div (sql_sub unit_net (coalesce (cs_total_cogs cs) (Some 0))) unit_net)
                           (\<lambda>q. Inr (sql_mul q (Some 100)))
                    else Inr (Some 0)) (\<lambda>pct.
          Inr (fol\<lparr> fol_estimated_cogs := coalesce (cs_total_cogs cs) (Some 0),
                    fol_has_missing_cost := coalesce (cs_has_missing_cost cs) (Some True),
                    fol_gross_margin := sql_sub unit_net (coalesce (cs_total_cogs cs) (Some 0)),
                    fol_margin_percent := pct \<rparr>))))"

definition set_cogs_defaults :: "fact_order_line \<Rightarrow> sql_error + fact_order_line" where
  \<comment> \<open>the second UPDATE: \<open>WHERE estimated_cogs IS NULL\<close>\<close>
  "set_cogs_defaults fol =
     (if fol_estimated_cogs fol = None
      then sql_bind (unit_net_revenue fol) (\<lambda>unit_net.
             Inr (fol\<lparr> fol_estimated_cogs := Some 0,
                       fol_has_missing_cost := Some True,
                       fol_gross_margin := unit_net,
                       fol_margin_percent := Some 100 \<rparr>))
      else Inr fol)"

definition update_fact_order_line_cogs ::
  "fact_cogs_estimate list \<Rightarrow> fact_order_line list \<Rightarrow> sql_error + fact_order_line list" where
  "update_fact_order_line_cogs fces fols =
     sql_bind (sql_rows (update_cogs (cogs_summary fces)) fols) (sql_rows set_cogs_defaults)"

record warehouse_inputs =
  in_orders :: "stg_order list"
  in_order_lines :: "stg_order_line list"
  in_sku_map :: "stg_product_sku_map list"
  in_recipes :: "stg_recipe list"
  in_dim_customer :: "dim_customer list"
  in_dim_channel :: "dim_channel list"
  in_dim_shipping_method :: "dim_shipping_method list"
  in_dim_product :: "dim_product list"
  in_dim_material :: "dim_material list"
  in_next_order_key :: nat
  in_next_order_line_key :: nat

definition build_facts ::
  "(string \<Rightarrow> string) \<Rightarrow> warehouse_inputs \<Rightarrow>
   sql_error + (fact_order list \<times> fact_order_line list \<times> fact_cogs_estimate list)" where
  \<comment> \<open>the statements of \<open>build_facts\<close> in order, up to the COGS update; the two optional
      marketing tables that follow are copies of their staging tables\<close>
  "build_facts sha256_hex db =
     sql_bind (build_fact_order sha256_hex (in_next_order_key db) (in_orders db) (in_order_lines db)
                 (in_dim_customer db) (in_dim_channel db) (in_dim_shipping_method db)) (\<lambda>fos.
     sql_bind (build_fact_order_line (in_next_order_line_key db) (in_order_lines db) fos
                 (in_sku_map db) (in_dim_product db)) (\<lambda>fols.
     let fces = build_fact_cogs_estimate fols (in_dim_product db) (in_recipes db) (in_dim_material db) in
     sql_bind (update_fact_order_line_cogs fces fols) (\<lambda>fols'.
     Inr (fos, fols', fces))))"

section \<open>build_staging: raw.orders to staging.stg_orders and staging.stg_order_lines\<close>

text \<open>
  \<open>raw.orders\<close> holds one row per order line, every column as text.  The conversion of
  a text to \<open>BIGINT\<close>, \<open>INTEGER\<close>, \<open>NUMERIC\<close> or \<open>TIMESTAMP WITH TIME ZONE\<close> is the
  database's; it is a parameter of the model, \<open>None\<close> for a text that the database
  rejects, which makes the statement fail.  A timestamp is a number of seconds since the epoch.
\<close>

record raw_order =
  raw_id :: "string option"
  raw_name :: "string option"
  raw_email :: "string option"
  raw_subtotal :: "string option"
  raw_shipping :: "string option"
  raw_taxes :: "string option"
  raw_total :: "string option"
  raw_discount_amount :: "string option"
  raw_refunded_amount :: "string option"
  raw_shipping_method :: "string option"
  raw_source :: "string option"
  raw_created_at :: "string option"
  raw_lineitem_name :: "string option"
  raw_lineitem_quantity :: "string option"
  raw_lineitem_price :: "string option"
  raw_lineitem_discount :: "string option"

record sql_casts =
  cast_bigint :: "string \<Rightarrow> int option"
  cast_integer :: "string \<Rightarrow> int option"
  cast_numeric :: "string \<Rightarrow> rat option"
  cast_timestamptz :: "string \<Rightarrow> int option"

definition cast_col :: "(string \<Rightarrow> 'a option) \<Rightarrow> string option \<Rightarrow> sql_error + 'a option" where
  \<comment> \<open>\<open>NULLIF(x, '')::T\<close>\<close>
  "cast_col cast x =
     (case nullif x [] of
        None \<Rightarrow> Inr None
      | Some t \<Rightarrow> (case cast t of None \<Rightarrow> Inl InvalidTextRepresentation | Some v \<Rightarrow> Inr (Some v)))"

definition not_blank :: "string option \<Rightarrow> bool" where
  \<comment> \<open>\<open>x IS NOT NULL AND x != ''\<close>\<close>
  "not_blank x = (case x of None \<Rightarrow> False | Some t \<Rightarrow> t \<noteq> [])"

definition stg_order_row :: "sql_casts \<Rightarrow> raw_order \<Rightarrow> sql_error + stg_order" where
  "stg_order_row c r =
     sql_bind (cast_col (cast_bigint c) (raw_id r)) (\<lambda>order_id.
     sql_bind (cast_col (cast_numeric c) (raw_subtotal r)) (\<lambda>subtotal.
     sql_bind (cast_col (cast_numeric c) (raw_shipping r)) (\<lambda>shipping.
     sql_bind (cast_col (cast_numeric c) (raw_taxes r)) (\<lambda>taxes.
     sql_bind (cast_col (cast_numeric c) (raw_total r)) (\<lambda>total.
     sql_bind (cast_col (cast_numeric c) (raw_discount_amount r)) (\<lambda>discount_amount.
     sql_bind (cast_col (cast_numeric c) (raw_refunded_amount r)) (\<lambda>refunded_amount.
     sql_bind (cast_col (cast_timestamptz c) (raw_created_at r)) (\<lambda>created_at.
     Inr \<lparr> o_order_id = order_id,
           o_order_number = raw_name r,
           o_email = raw_email r,
           o_subtotal = subtotal,
           o_shipping = shipping,
           o_taxes = taxes,
           o_total = total,
           o_discount_amount = coalesce discount_amount (Some 0),
           o_refunded_amount = coalesce refunded_amount (Some 0),
           o_shipping_method = raw_shipping_method r,
           o_source = raw_source r,
           o_created_at = created_at \<rparr>))))))))"

definition nulls_last :: "int option \<Rightarrow> nat \<times> int" where
  \<comment> \<open>the sort key of an ascending \<open>ORDER BY\<close>: NULLs come after every value\<close>
  "nulls_last t = (case t of None \<Rightarrow> (1, 0) | Some v \<Rightarrow> (0, v))"

fun distinct_on :: "('a \<Rightarrow> 'k) \<Rightarrow> 'a list \<Rightarrow> 'a list" where
  \<comment> \<open>\<open>DISTINCT ON\<close> over sorted rows: the first row of every run of equal keys\<close>
  "distinct_on key [] = []"
| "distinct_on key [x] = [x]"
| "distinct_on key (x # y # ys) =
     (if key x = key y then distinct_on key (x # ys) else x # distinct_on key (y # ys))"

definition build_stg_orders :: "sql_casts \<Rightarrow> raw_order list \<Rightarrow> sql_error + stg_order list" where
  \<comment> \<open>\<open>SELECT DISTINCT ON (id) ... WHERE id IS NOT NULL AND id != '' ORDER BY id, created_at\<close>;
      rows that tie on both sort keys keep the order in which they are read\<close>
  "build_stg_orders c raw =
     sql_bind (sql_rows (\<lambda>r. sql_bind (stg_order_row c r) (\<lambda>so. Inr (raw_id r, so)))
                 (filter (\<lambda>r. not_blank (raw_id r)) raw)) (\<lambda>rows.
     Inr (map snd
            (distinct_on fst
               (sort_key (\<lambda>(i, so). (i, nulls_last (o_created_at so))) rows))))"






definition hash_email :: "(string \<Rightarrow> string) \<Rightarrow> string option \<Rightarrow> string" where
  \<comment> \<open>the Python helper of \<open>build_staging\<close>: \<open>sha256(email.lower().strip())\<close>, and the
      digest of \<open>'unknown'\<close> for \<open>None\<close> or an empty email\<close>
  "hash_email sha256_hex email =
     (case email of
        None \<Rightarrow> sha256_hex ''unknown''
      | Some e \<Rightarrow> if e = [] then sha256_hex ''unknown'' else sha256_hex (strip (lower e)))"

section \<open>build_dimensions: warehouse.dim_customer and warehouse.dim_shipping_method\<close>

record stg_customer =
  c_customer_id :: "int option"
  c_email :: "string option"
  c_accepts_email_marketing :: "bool option"
  c_accepts_sms_marketing :: "bool option"

record order_customer =
  oc_email :: "string option"
  oc_first_order_date :: "int option"

record customer_stats_row =
  cst_email :: "string option"
  cst_total_orders :: "int option"
  cst_total_spent :: "rat option"

definition sql_min :: "int option list \<Rightarrow> int option" where
  "sql_min vs = (case concat (map (case_option [] (\<lambda>v. [v])) vs) of
                   [] \<Rightarrow> None | v # ws \<Rightarrow> Some (fold min ws v))"

definition count_distinct :: "'a option list \<Rightarrow> int" where
  \<comment> \<open>\<open>COUNT(DISTINCT x)\<close>: the number of distinct non-NULL values\<close>
  "count_distinct vs = int (length (remdups (concat (map (case_option [] (\<lambda>v. [v])) vs))))"

definition order_customers :: "stg_order list \<Rightarrow> order_customer list" where
  \<comment> \<open>\<open>SELECT DISTINCT email, MIN(created_at) ... WHERE email IS NOT NULL AND email != ''
      GROUP BY email\<close>\<close>
  "order_customers orders =
     (let kept = filter (\<lambda>so. not_blank (o_email so)) orders in
      remdups (map (\<lambda>e. \<lparr> oc_email = e,
                           oc_first_order_date =
                             sql_min (map o_created_at (filter (\<lambda>so. o_email so = e) kept)) \<rparr>)
                   (remdups (map o_email kept))))"

definition customer_stats :: "stg_order list \<Rightarrow> customer_stats_row list" where
  "customer_stats orders =
     map (\<lambda>e. let g = filter (\<lambda>so. o_email so = e) orders in
            \<lparr> cst_email = e,
              cst_total_orders = Some (count_distinct (map o_order_id g)),
              cst_total_spent =
                sql_sum (map (\<lambda>so. sql_sub (o_subtotal so) (o_refunded_amount so)) g) \<rparr>)
         (remdups (map o_email orders))"

definition sql_ge :: "int option \<Rightarrow> int option \<Rightarrow> bool option" where
  "sql_ge = sql_lift2 (\<lambda>x y. y \<le> x)"

definition customer_segment :: "int option \<Rightarrow> string" where
  "customer_segment total_orders =
     (if is_true (sql_eq (coalesce total_orders (Some 0)) (Some 0)) then ''prospect''
      else if is_true (sql_eq (coalesce total_orders (Some 0)) (Some 1)) then ''new''
      else if is_true (sql_ge (coalesce total_orders (Some 0)) (Some 2)) then ''returning''
      else ''unknown'')"

definition sql_date :: "int option \<Rightarrow> int option" where
  \<comment> \<open>\<open>DATE(ts)\<close>: the day of a timestamp counted in seconds\<close>
  "sql_date = map_option (\<lambda>t. t div 86400)"

definition dim_customer_row ::
  "(string \<Rightarrow> string) \<Rightarrow>
   nat \<times> ((order_customer \<times> stg_customer option) \<times> customer_stats_row option) \<Rightarrow> dim_customer" where
  "dim_customer_row sha256_hex = (\<lambda>(k, ((oc, c), cs)).
     \<lparr> dc_customer_key = k,
       dc_customer_id_hash = customer_id_hash_of sha256_hex (oc_email oc),
       dc_customer_id = col c_customer_id c,
       dc_accepts_email_marketing = coalesce (col c_accepts_email_marketing c) (Some False),
       dc_accepts_sms_marketing = coalesce (col c_accepts_sms_marketing c) (Some False),
       dc_first_order_date = sql_date (oc_first_order_date oc),
       dc_total_orders = coalesce (col cst_total_orders cs) (Some 0),
       dc_total_spent = coalesce (col cst_total_spent cs) (Some 0),
       dc_customer_segment = Some (customer_segment (col cst_total_orders cs)) \<rparr>)"

definition build_dim_customer ::
  "(string \<Rightarrow> string) \<Rightarrow> nat \<Rightarrow> stg_order list \<Rightarrow> stg_customer list \<Rightarrow> dim_customer list" where
  "build_dim_customer sha256_hex k orders customers =
     map (dim_customer_row sha256_hex)
       (with_keys k
          (left_join (\<lambda>(oc, c) cs. sql_eq (map_option lower (oc_email oc)) (map_option lower (cst_email cs)))
             (left_join (\<lambda>oc c. sql_eq (map_option lower (oc_email oc)) (map_option lower (c_email c)))
                (order_customers orders) customers)
             (customer_stats orders)))"

definition shipping_method_rows :: "stg_order list \<Rightarrow> (string option \<times> string option \<times> bool option) list" where
  \<comment> \<open>the two branches of the \<open>UNION\<close>, which removes duplicate rows\<close>
  "shipping_method_rows orders =
     remdups
       (map (\<lambda>so. (shipping_method_code_of (o_shipping_method so),
                   o_shipping_method so,
                   map_option (\<lambda>m. contains ''local'' (lower m)) (o_shipping_method so)))
            (filter (\<lambda>so. not_blank (o_shipping_method so)) orders)
        @ (if \<not> (\<exists>so \<in> set orders. not_blank (o_shipping_method so))
           then [(Some ''unknown'', Some ''Unknown'', Some False)] else []))"

definition build_dim_shipping_method :: "nat \<Rightarrow> stg_order list \<Rightarrow> dim_shipping_method list" where
  "build_dim_shipping_method k orders =
     map (\<lambda>(key, (code, name, is_local)).
            \<lparr> sm_shipping_method_key = key,
              sm_shipping_method_code = code,
              sm_shipping_method_name = name,
              sm_is_local_delivery = is_local \<rparr>)
         (with_keys k (shipping_method_rows orders))"

section \<open>run_all: schema initialisation and the pipeline\<close>

text \<open>
  A Python function that can raise returns \<open>Inl\<close> of the exception's message or \<open>Inr\<close>
  of its result; \<open>try\<close>/\<open>except Exception\<close> is the case distinction on that value.  The
  database is a parameter: \<open>execute db stmt\<close> is \<open>conn.execute(text(stmt))\<close> followed by
  \<open>conn.commit()\<close>, either the committed database or the message of the exception raised,
  after which \<open>conn.rollback()\<close> leaves the database as it was.  The schema directory is
  the list of its file names with their contents.
\<close>

datatype log_record = LogInfo string | LogWarning string | LogError string

fun split_on :: "char \<Rightarrow> string \<Rightarrow> string list" where
  \<comment> \<open>Python's \<open>s.split(sep)\<close> for a one-character separator\<close>
  "split_on sep [] = [[]]"
| "split_on sep (c # cs) =
     (if c = sep then [] # split_on sep cs
      else (case split_on sep cs of [] \<Rightarrow> [[c]] | w # ws \<Rightarrow> (c # w) # ws))"

definition endswith :: "string \<Rightarrow> string \<Rightarrow> bool" where
  "endswith s suffix = startswith (rev s) (rev suffix)"

definition statements :: "string \<Rightarrow> string list" where
  \<comment> \<open>\<open>[s.strip() for s in sql.split(';') if s.strip()]\<close>\<close>
  "statements sql = filter (\<lambda>t. t \<noteq> []) (map strip (split_on (CHR '';'') sql))"

definition has_code :: "string \<Rightarrow> bool" where
  \<comment> \<open>the statement has a line that is neither blank nor a \<open>--\<close> comment\<close>
  "has_code stmt =
     (filter (\<lambda>l. strip l \<noteq> [] \<and> \<not> startswith (strip l) ''--'') (split_on (CHR 0x0A) stmt) \<noteq> [])"

fun py_for :: "('a \<Rightarrow> 's \<Rightarrow> string + 's) \<Rightarrow> 'a list \<Rightarrow> 's \<Rightarrow> string + 's" where
  \<comment> \<open>a \<open>for\<close> loop: an exception raised by the body leaves the loop\<close>
  "py_for body [] st = Inr st"
| "py_for body (x # xs) st = (case body x st of Inl e \<Rightarrow> Inl e | Inr st' \<Rightarrow> py_for body xs st')"

definition run_statement ::
  "('db \<Rightarrow> string \<Rightarrow> string + 'db) \<Rightarrow> string \<Rightarrow> 'db \<times> log_record list \<Rightarrow>
   string + ('db \<times> log_record list)" where
  "run_statement execute stmt = (\<lambda>(db, logs).
     if \<not> has_code stmt then Inr (db, logs)
     else (case execute db stmt of
             Inr db' \<Rightarrow> Inr (db', logs)
           | Inl e \<Rightarrow>
               if \<not> contains ''already exists'' (lower e)
               then Inr (db, logs @ [LogWarning (''Statement warning: '' @ e)])
               else Inr (db, logs)))"

definition run_schema_file ::
  "('db \<Rightarrow> string \<Rightarrow> string + 'db) \<Rightarrow> string \<times> string \<Rightarrow> 'db \<times> log_record list \<Rightarrow>
   string + ('db \<times> log_record list)" where
  "run_schema_file execute = (\<lambda>(schema_file, sql) (db, logs).
     py_for (run_statement execute) (statements sql)
       (db, logs @ [LogInfo (''Executing '' @ schema_file @ ''...'')]))"

definition init_database ::
  "('db \<Rightarrow> string \<Rightarrow> string + 'db) \<Rightarrow> (string \<times> string) list \<Rightarrow> 'db \<times> log_record list \<Rightarrow>
   string + ('db \<times> log_record list)" where
  "init_database execute schema_dir st =
     (case py_for (run_schema_file execute)
             (sort_key fst (filter (\<lambda>(f, sql). endswith f ''.sql'') schema_dir)) st of
        Inl e \<Rightarrow> Inl e
      | Inr (db, logs) \<Rightarrow> Inr (db, logs @ [LogInfo ''Database schemas initialized!'']))"

datatype step = Load | Build | All

record 'db pipeline_env =
  env_execute :: "'db \<Rightarrow> string \<Rightarrow> string + 'db"
  env_schema_dir :: "(string \<times> string) list"
  env_load_raw_data :: "bool \<Rightarrow> 'db \<Rightarrow> string + 'db"
  env_build_staging_tables :: "'db \<Rightarrow> string + 'db"
  env_build_dimensions :: "'db \<Rightarrow> string + 'db"
  env_build_facts :: "'db \<Rightarrow> string + 'db"
  env_build_marts :: "'db \<Rightarrow> string + 'db"

definition stage :: "('db \<Rightarrow> string + 'db) \<Rightarrow> 'db \<times> log_record list \<Rightarrow> string + ('db \<times> log_record list)" where
  "stage f = (\<lambda>(db, logs). case f db of Inl e \<Rightarrow> Inl e | Inr db' \<Rightarrow> Inr (db', logs))"

definition py_then :: "string + 's \<Rightarrow> ('s \<Rightarrow> string + 't) \<Rightarrow> string + 't" where
  "py_then m f = (case m of Inl e \<Rightarrow> Inl e | Inr st \<Rightarrow> f st)"

definition run_pipeline ::
  "'db pipeline_env \<Rightarrow> step \<Rightarrow> bool \<Rightarrow> 'db \<times> log_record list \<Rightarrow> string + ('db \<times> log_record list)" where
  \<comment> \<open>\<open>print_summary\<close>, which ends the function, catches its own exceptions and only prints\<close>
  "run_pipeline env step use_sample st =
     py_then (if step = All \<or> step = Load
              then py_then (init_database (env_execute env) (env_schema_dir env) st)
                     (stage (env_load_raw_data env use_sample))
              else Inr st) (\<lambda>st1.
     if step = All \<or> step = Build
     then py_then (stage (env_build_staging_tables env) st1) (\<lambda>st2.
          py_then (stage (env_build_dimensions env) st2) (\<lambda>st3.
          py_then (stage (env_build_facts env) st3) (\<lambda>st4.
          stage (env_build_marts env) st4)))
     else Inr st1)"

definition main :: "'db pipeline_env \<Rightarrow> step \<Rightarrow> bool \<Rightarrow> 'db \<times> log_record list \<Rightarrow> nat" where
  \<comment> \<open>the exit status of the process: \<open>sys.exit(1)\<close> in the handler, 0 on a normal return\<close>
  "main env step use_sample st =
     (case run_pipeline env step use_sample st of Inl e \<Rightarrow> 1 | Inr st' \<Rightarrow> 0)"

section \<open>Closed forms and a sample warehouse\<close>

text \<open>
  \<open>per_unit_net\<close> is the value of \<open>net_line_revenue / NULLIF(quantity, 0)\<close>.  The sample
  tables below are used to run the model on concrete rows; \<open>toy_sha256_hex\<close> stands in
  for the digest there (the theorems hold for every digest function).
\<close>

definition per_unit_net :: "fact_order_line \<Rightarrow> rat option" where
  "per_unit_net fol =
     (case nullif (fol_quantity fol) 0 of None \<Rightarrow> None
      | Some q \<Rightarrow> map_option (\<lambda>n. n / of_int q) (fol_net_line_revenue fol))"

definition toy_sha256_hex :: "string \<Rightarrow> string" where
  "toy_sha256_hex s = ''sha256:'' @ s"

definition demo_order :: "int \<Rightarrow> string \<Rightarrow> rat \<Rightarrow> rat \<Rightarrow> string \<Rightarrow> stg_order" where
  "demo_order i e sub disc ship =
     \<lparr> o_order_id = Some i, o_order_number = Some ''#'', o_email = Some e,
       o_subtotal = Some sub, o_shipping = Some 5, o_taxes = Some 1, o_total = Some (sub + 6),
       o_discount_amount = Some disc, o_refunded_amount = Some 0,
       o_shipping_method = Some ship, o_source = Some ''web'', o_created_at = Some 0 \<rparr>"

definition demo_line :: "int \<Rightarrow> int \<Rightarrow> string \<Rightarrow> int \<Rightarrow> stg_order_line" where
  "demo_line i n name q =
     \<lparr> ol_order_id = Some i, ol_line_number = Some n, ol_lineitem_name = Some name,
       ol_lineitem_quantity = Some q, ol_lineitem_price = Some 10, ol_lineitem_discount = Some 0 \<rparr>"

definition demo_db :: warehouse_inputs where
  "demo_db =
     \<lparr> in_orders = [demo_order 1 ''A@b.com'' 18 2 ''Local Delivery'',
                    demo_order 2 ''c@d.com'' 15 0 ''Standard'',
                    demo_order 3 ''c@d.com'' 0 0 ''Standard''],
       in_order_lines = [demo_line 1 1 ''Attar 50ml'' 1, demo_line 1 2 ''Gift Box'' 1,
                         demo_line 3 1 ''Attar 50ml'' 0],
       in_sku_map = [\<lparr> skm_internal_sku = Some ''ATT-50'', skm_lineitem_name = Some ''Attar 50ml'' \<rparr>],
       in_recipes =
         [\<lparr> r_recipe_id = Some ''R1'', r_variant = Some ''final'', r_batch_size_ml = Some 50,
            r_ingredient_match = Some ''oil'', r_amount_ml = Some 5, r_material_id = Some ''M1'' \<rparr>,
          \<lparr> r_recipe_id = Some ''R1'', r_variant = Some ''final'', r_batch_size_ml = Some 50,
            r_ingredient_match = Some ''musk'', r_amount_ml = Some 1, r_material_id = Some ''M2'' \<rparr>,
          \<lparr> r_recipe_id = Some ''R1'', r_variant = Some ''draft'', r_batch_size_ml = Some 50,
            r_ingredient_match = Some ''rose'', r_amount_ml = Some 9, r_material_id = Some ''M1'' \<rparr>],
       in_dim_customer = [],
       in_dim_channel = [\<lparr> ch_channel_key = 1, ch_channel_code = Some ''web'' \<rparr>],
       in_dim_shipping_method = [],
       in_dim_product =
         [\<lparr> dp_product_key = 7, dp_internal_sku = Some ''ATT-50'', dp_recipe_id = Some ''R1'',
            dp_size_ml = Some 50 \<rparr>],
       in_dim_material =
         [\<lparr> dm_material_key = 3, dm_material_id = Some ''M1'', dm_cost_per_unit = None,
            dm_cost_per_ml = Some (1 / 2), dm_has_known_cost = Some True \<rparr>,
          \<lparr> dm_material_key = 4, dm_material_id = Some ''M2'', dm_cost_per_unit = None,
            dm_cost_per_ml = None, dm_has_known_cost = Some False \<rparr>],
       in_next_order_key = 1,
       in_next_order_line_key = 1 \<rparr>"

definition fact_orders ::
  "sql_error + (fact_order list \<times> fact_order_line list \<times> fact_cogs_estimate list) \<Rightarrow> fact_order list" where
  "fact_orders res = (case res of Inl e \<Rightarrow> [] | Inr (fos, fols, fces) \<Rightarrow> fos)"

definition fact_lines ::
  "sql_error + (fact_order list \<times> fact_order_line list \<times> fact_cogs_estimate list) \<Rightarrow> fact_order_line list" where
  "fact_lines res = (case res of Inl e \<Rightarrow> [] | Inr (fos, fols, fces) \<Rightarrow> fols)"

definition cogs_estimates ::
  "sql_error + (fact_order list \<times> fact_order_line list \<times> fact_cogs_estimate list) \<Rightarrow> fact_cogs_estimate list" where
  "cogs_estimates res = (case res of Inl e \<Rightarrow> [] | Inr (fos, fols, fces) \<Rightarrow> fces)"


definition toy_nat :: "string \<Rightarrow> nat option" where
  \<comment> \<open>a text made of decimal digits only; every other text is rejected\<close>
  "toy_nat t =
     (if t \<noteq> [] \<and> (\<forall>ch \<in> set t. CHR ''0'' \<le> ch \<and> ch \<le> CHR ''9'')
      then Some (foldl (\<lambda>a ch. 10 * a + (of_char ch - 48)) 0 t) else None)"

definition toy_casts :: sql_casts where
  "toy_casts =
     \<lparr> cast_bigint = (\<lambda>t. map_option int (toy_nat t)),
       cast_integer = (\<lambda>t. map_option int (toy_nat t)),
       cast_numeric = (\<lambda>t. map_option of_nat (toy_nat t)),
       cast_timestamptz = (\<lambda>t. map_option int (toy_nat t)) \<rparr>"

definition demo_raw :: "string \<Rightarrow> string \<Rightarrow> string \<Rightarrow> string \<Rightarrow> string \<Rightarrow> raw_order" where
  "demo_raw i email ship item qty =
     \<lparr> raw_id = Some i, raw_name = Some ''#'', raw_email = Some email,
       raw_subtotal = Some ''20'', raw_shipping = Some ''5'', raw_taxes = Some ''1'',
       raw_total = Some ''26'', raw_discount_amount = Some [], raw_refunded_amount = Some [],
       raw_shipping_method = Some ship, raw_source = Some ''web'', raw_created_at = Some ''100'',
       raw_lineitem_name = Some item, raw_lineitem_quantity = Some qty,
       raw_lineitem_price = Some ''10'', raw_lineitem_discount = Some [] \<rparr>"

definition demo_raw_orders :: "raw_order list" where
  "demo_raw_orders =
     [demo_raw ''1'' '' A@b.com '' ''Local Delivery'' ''Attar 50ml'' ''1'',
      demo_raw ''1'' '' A@b.com '' ''Local Delivery'' ''Gift Box'' ''1'',
      demo_raw ''2'' ''c@d.com'' [] ''Attar 50ml'' ''2'']"

definition shipping_method_row ::
  "dim_shipping_method \<Rightarrow> string option \<times> string option \<times> bool option" where
  "shipping_method_row sm =
     (sm_shipping_method_code sm, sm_shipping_method_name sm, sm_is_local_delivery sm)"

definition demo_staged_orders :: "stg_order list" where
  \<comment> \<open>the orders that the staging build makes of \<open>demo_raw_orders\<close>\<close>
  "demo_staged_orders =
     [\<lparr> o_order_id = Some 1, o_order_number = Some ''#'', o_email = Some '' A@b.com '',
        o_subtotal = Some 20, o_shipping = Some 5, o_taxes = Some 1, o_total = Some 26,
        o_discount_amount = Some 0, o_refunded_amount = Some 0,
        o_shipping_method = Some ''Local Delivery'', o_source = Some ''web'',
        o_created_at = Some 100 \<rparr>,
      \<lparr> o_order_id = Some 2, o_order_number = Some ''#'', o_email = Some ''c@d.com'',
        o_subtotal = Some 20, o_shipping = Some 5, o_taxes = Some 1, o_total = Some 26,
        o_discount_amount = Some 0, o_refunded_amount = Some 0,
        o_shipping_method = Some [], o_source = Some ''web'',
        o_created_at = Some 100 \<rparr>]"



definition demo_execute :: "nat \<Rightarrow> string \<Rightarrow> string + nat" where
  \<comment> \<open>a database that counts the statements it has run; it rejects \<open>CREATE TABL\<close> and
      already has the table \<open>a\<close>\<close>
  "demo_execute db stmt =
     (if startswith stmt ''CREATE TABL '' then Inl ''syntax error at or near TABL''
      else if stmt = ''CREATE TABLE a (x int)'' then Inl ''relation a already exists''
      else Inr (Suc db))"

definition demo_env :: "nat pipeline_env" where
  "demo_env =
     \<lparr> env_execute = demo_execute,
       env_schema_dir =
         [(''01_schema.sql'', ''CREATE TABL b (x int); CREATE TABLE a (x int); CREATE TABLE c (x int);''),
          (''notes.txt'', ''DROP TABLE a;'')],
       env_load_raw_data = (\<lambda>use_sample db. Inr db),
       env_build_staging_tables = (\<lambda>db. Inr db),
       env_build_dimensions = (\<lambda>db. Inr db),
       env_build_facts = (\<lambda>db. Inr db),
       env_build_marts = (\<lambda>db. Inr db) \<rparr>"

section \<open>Tables, joins and statements\<close>


lemma sql_rows_result_mem:
  "sql_rows f xs = Inr ys \<Longrightarrow> y \<in> set ys \<Longrightarrow> \<exists>x \<in> set xs. f x = Inr y"
  by (induction xs arbitrary: ys) (auto split: sum.splits)

lemma sql_rows_source_mem:
  "sql_rows f xs = Inr ys \<Longrightarrow> x \<in> set xs \<Longrightarrow> \<exists>y \<in> set ys. f x = Inr y"
  by (induction xs arbitrary: ys) (auto split: sum.splits)


lemma sql_rows_total: "(\<And>x. x \<in> set xs \<Longrightarrow> f x = Inr (g x)) \<Longrightarrow> sql_rows f xs = Inr (map g xs)"
  by (induction xs) auto

lemma in_with_keys: "(i, x) \<in> set (with_keys k xs) \<Longrightarrow> x \<in> set xs"
  by (auto simp: with_keys_def dest: set_zip_rightD)

lemma with_keys_functional:
  "(i, x) \<in> set (with_keys k xs) \<Longrightarrow> (i, y) \<in> set (with_keys k xs) \<Longrightarrow> x = y"
  by (auto simp: with_keys_def in_set_zip)

lemma snd_with_keys: "map snd (with_keys k xs) = xs"
  by (simp add: with_keys_def)

lemma in_inner_join:
  "(l, r) \<in> set (inner_join on ls rs) \<longleftrightarrow> l \<in> set ls \<and> r \<in> set rs \<and> is_true (on l r)"
  by (auto simp: inner_join_def)

lemma in_left_join:
  "(l, r) \<in> set (left_join on ls rs) \<longleftrightarrow>
     l \<in> set ls \<and> (case r of None \<Rightarrow> \<forall>r' \<in> set rs. \<not> is_true (on l r')
                     | Some r' \<Rightarrow> r' \<in> set rs \<and> is_true (on l r'))"
proof -
  have *: "set (case filter P rs of [] \<Rightarrow> [(l', None)] | ms \<Rightarrow> map (\<lambda>r. (l', Some r)) ms)
      = (if filter P rs = [] then {(l', None)} else (\<lambda>r. (l', Some r)) ` set (filter P rs))"
    for P and l' :: 'a
    by (cases "filter P rs") simp_all
  show ?thesis unfolding left_join_def set_concat set_map
    by (auto simp: * filter_empty_conv split: option.splits if_splits)
qed


lemma left_join_total: "l \<in> set ls \<Longrightarrow> \<exists>r. (l, r) \<in> set (left_join on ls rs)"
proof (cases "\<forall>r' \<in> set rs. \<not> is_true (on l r')")
  case True
  assume "l \<in> set ls"
  with True have "(l, None) \<in> set (left_join on ls rs)" by (simp add: in_left_join)
  then show ?thesis ..
next
  case False
  assume l: "l \<in> set ls"
  from False obtain r' where "r' \<in> set rs" "is_true (on l r')" by blast
  with l have "(l, Some r') \<in> set (left_join on ls rs)" by (simp add: in_left_join)
  then show ?thesis ..
qed

lemma with_keys_total: "x \<in> set xs \<Longrightarrow> \<exists>i. (i, x) \<in> set (with_keys k xs)"
proof -
  assume "x \<in> set xs"
  then have "x \<in> snd ` set (with_keys k xs)"
    by (metis snd_with_keys set_map)
  then show ?thesis by force
qed


lemma sql_rows_map:
  "sql_rows f xs = Inr ys \<Longrightarrow> (\<And>x y. x \<in> set xs \<Longrightarrow> f x = Inr y \<Longrightarrow> g y = h x) \<Longrightarrow>
   map g ys = map h xs"
  by (induction xs arbitrary: ys) (auto split: sum.splits)

lemma find_map_key:
  "(\<And>x. g (F x) = x) \<Longrightarrow>
   find (\<lambda>y. k = g y) (map F xs) = (if k \<in> set xs then Some (F k) else None)"
  by (induction xs) auto

lemma distinct_map_eq:
  "distinct (map f xs) \<Longrightarrow> x \<in> set xs \<Longrightarrow> y \<in> set xs \<Longrightarrow> f x = f y \<Longrightarrow> x = y"
  by (meson distinct_map inj_on_eq_iff)

section \<open>The fact build\<close>

lemma order_line_summary_ids:
  "map ols_order_id (order_line_summary lines) = remdups (map ol_order_id lines)"
  by (simp add: order_line_summary_def Let_def comp_def)

lemma in_order_line_summary:
  "s \<in> set (order_line_summary lines) \<Longrightarrow> \<exists>l \<in> set lines. ol_order_id l = ols_order_id s"
proof -
  assume "s \<in> set (order_line_summary lines)"
  then have "ols_order_id s \<in> set (map ols_order_id (order_line_summary lines))" by simp
  then have "ols_order_id s \<in> set (map ol_order_id lines)"
    by (simp only: order_line_summary_ids set_remdups)
  then show ?thesis by auto
qed

lemma fact_order_row_fields:
  assumes "fact_order_row chs sms (k, ((((so, ols), dc), ch), sm)) = Inr fo"
  shows "fo_order_key fo = k" "fo_order_id fo = o_order_id so"
    "fo_subtotal fo = o_subtotal so" "fo_order_discount_amount fo = o_discount_amount so"
    "fo_gross_product_sales fo =
       coalesce (col ols_calculated_gross ols) (sql_add (o_subtotal so) (o_discount_amount so))"
    "fo_line_item_count fo = coalesce (col ols_line_item_count ols) (Some 1)"
    "fo_unit_count fo = coalesce (col ols_unit_count ols) (Some 1)"
  using assms by (auto simp: fact_order_row_def sql_bind_def split: sum.splits)


lemma in_fact_order_from:
  assumes "((((so, ols), dc), ch), sm) \<in> set (fact_order_from H orders lines dcs chs sms)"
  shows "so \<in> set orders"
    and "case ols of None \<Rightarrow> \<forall>l \<in> set lines. \<not> is_true (sql_eq (o_order_id so) (ol_order_id l))
         | Some s \<Rightarrow> \<exists>l \<in> set lines. is_true (sql_eq (o_order_id so) (ol_order_id l))"
proof -
  from assms have a: "(so, ols) \<in> set (left_join (\<lambda>so ols. sql_eq (o_order_id so) (ols_order_id ols))
                orders (order_line_summary lines))"
    unfolding fact_order_from_def by (auto simp: in_left_join)
  then show "so \<in> set orders" by (simp add: in_left_join)
  show "case ols of None \<Rightarrow> \<forall>l \<in> set lines. \<not> is_true (sql_eq (o_order_id so) (ol_order_id l))
         | Some s \<Rightarrow> \<exists>l \<in> set lines. is_true (sql_eq (o_order_id so) (ol_order_id l))"
  proof (cases ols)
    case None
    have "\<not> is_true (sql_eq (o_order_id so) (ol_order_id l))" if "l \<in> set lines" for l
    proof
      assume t: "is_true (sql_eq (o_order_id so) (ol_order_id l))"
      from that have "ol_order_id l \<in> set (remdups (map ol_order_id lines))" by simp
      then have "ol_order_id l \<in> set (map ols_order_id (order_line_summary lines))"
        by (simp only: order_line_summary_ids)
      then obtain s where "s \<in> set (order_line_summary lines)" "ols_order_id s = ol_order_id l"
        by auto
      with a None t show False by (auto simp: in_left_join)
    qed
    with None show ?thesis by simp
  next
    case (Some s)
    with a have s: "s \<in> set (order_line_summary lines)"
      and t: "is_true (sql_eq (o_order_id so) (ols_order_id s))"
      by (auto simp: in_left_join)
    from in_order_line_summary [OF s] obtain l where "l \<in> set lines" "ol_order_id l = ols_order_id s"
      by blast
    with t have "\<exists>l \<in> set lines. is_true (sql_eq (o_order_id so) (ol_order_id l))"
      by (intro bexI [of _ l]) simp_all
    with Some show ?thesis by simp
  qed
qed

lemma fact_order_from_total:
  "so \<in> set orders \<Longrightarrow> \<exists>ols dc ch sm. ((((so, ols), dc), ch), sm) \<in> set (fact_order_from H orders lines dcs chs sms)"
  unfolding fact_order_from_def
  by (meson left_join_total)




lemma lwa_row_fields:
  assumes "lwa_row (ol, fo) = Inr a"
  shows "lwa_order_key a = fo_order_key fo"
    "lwa_quantity a = ol_lineitem_quantity ol"
    "lwa_unit_price a = ol_lineitem_price ol"
    "lwa_gross_line_revenue a = gross_line_revenue ol"
    "lwa_line_discount a = ol_lineitem_discount ol"
    "Inr (lwa_allocated_order_discount a) = allocated_order_discount ol fo"
  using assms by (auto simp: lwa_row_def sql_bind_def split: sum.splits)



lemma in_build_fact_order_line:
  assumes "build_fact_order_line k lines fos skms dps = Inr fols" and "fol \<in> set fols"
  shows "\<exists>ol \<in> set lines. \<exists>fo \<in> set fos.
           is_true (sql_eq (ol_order_id ol) (fo_order_id fo)) \<and>
           fol_order_key fol = fo_order_key fo \<and>
           fol_quantity fol = ol_lineitem_quantity ol \<and>
           fol_unit_price fol = ol_lineitem_price ol \<and>
           fol_gross_line_revenue fol = gross_line_revenue ol \<and>
           fol_line_discount fol = ol_lineitem_discount ol \<and>
           Inr (fol_allocated_order_discount fol) = allocated_order_discount ol fo \<and>
           fol_net_line_revenue fol =
             sql_sub (sql_sub (fol_gross_line_revenue fol) (fol_line_discount fol))
                     (fol_allocated_order_discount fol) \<and>
           (case fol_product_key fol of None \<Rightarrow> True
            | Some pk \<Rightarrow> \<exists>skm \<in> set skms. \<exists>dp \<in> set dps. pk = dp_product_key dp \<and>
                is_true (sql_eq (ol_lineitem_name ol) (skm_lineitem_name skm)) \<and>
                is_true (sql_eq (skm_internal_sku skm) (dp_internal_sku dp))) \<and>
           fol_estimated_cogs fol = None"
proof -
  from assms(1) obtain lwas where c: "line_with_allocation_cte lines fos = Inr lwas"
    and f: "fols = map fact_order_line_row
          (with_keys k
             (left_join (\<lambda>(lwa, skm) dp. sql_eq (col skm_internal_sku skm) (dp_internal_sku dp))
                (left_join (\<lambda>lwa skm. sql_eq (lwa_lineitem_name lwa) (skm_lineitem_name skm)) lwas skms)
                dps))"
    by (auto simp: build_fact_order_line_def sql_bind_def split: sum.splits)
  from f assms(2) obtain k' lwa skm dp where r: "fol = fact_order_line_row (k', ((lwa, skm), dp))"
    and j: "((lwa, skm), dp) \<in> set (left_join (\<lambda>(lwa, skm) dp. sql_eq (col skm_internal_sku skm) (dp_internal_sku dp))
                (left_join (\<lambda>lwa skm. sql_eq (lwa_lineitem_name lwa) (skm_lineitem_name skm)) lwas skms)
                dps)"
    by (auto dest: in_with_keys)
  from j have j1: "(lwa, skm) \<in> set (left_join (\<lambda>lwa skm. sql_eq (lwa_lineitem_name lwa) (skm_lineitem_name skm)) lwas skms)"
    and j2: "case dp of None \<Rightarrow> True | Some d \<Rightarrow> d \<in> set dps \<and> is_true (sql_eq (col skm_internal_sku skm) (dp_internal_sku d))"
    by (auto simp: in_left_join split: option.splits)
  from j1 have l: "lwa \<in> set lwas"
    and j3: "case skm of None \<Rightarrow> True | Some m \<Rightarrow> m \<in> set skms \<and> is_true (sql_eq (lwa_lineitem_name lwa) (skm_lineitem_name m))"
    by (auto simp: in_left_join split: option.splits)
  from c l obtain ol fo where p: "(ol, fo) \<in> set (inner_join (\<lambda>ol fo. sql_eq (ol_order_id ol) (fo_order_id fo)) lines fos)"
    and w: "lwa_row (ol, fo) = Inr lwa"
    unfolding line_with_allocation_cte_def by (fastforce dest: sql_rows_result_mem)
  from w have n: "lwa_lineitem_name lwa = ol_lineitem_name ol"
    by (auto simp: lwa_row_def sql_bind_def split: sum.splits)
  from p have "ol \<in> set lines" "fo \<in> set fos" "is_true (sql_eq (ol_order_id ol) (fo_order_id fo))"
    by (auto simp: in_inner_join)
  moreover have "case fol_product_key fol of None \<Rightarrow> True
            | Some pk \<Rightarrow> \<exists>skm \<in> set skms. \<exists>dp \<in> set dps. pk = dp_product_key dp \<and>
                is_true (sql_eq (ol_lineitem_name ol) (skm_lineitem_name skm)) \<and>
                is_true (sql_eq (skm_internal_sku skm) (dp_internal_sku dp))"
  proof (cases dp)
    case None
    with r show ?thesis by (simp add: fact_order_line_row_def)
  next
    case (Some d)
    with j2 have d: "d \<in> set dps" "is_true (sql_eq (col skm_internal_sku skm) (dp_internal_sku d))" by auto
    then obtain m where m: "skm = Some m" by (cases skm) (auto simp: col_def is_true_def sql_eq_def sql_lift2_def)
    with j3 n have "m \<in> set skms" "is_true (sql_eq (ol_lineitem_name ol) (skm_lineitem_name m))" by auto
    with d m Some r show ?thesis by (auto simp: fact_order_line_row_def col_def)
  qed
  ultimately show ?thesis using r lwa_row_fields [OF w]
    by (intro bexI [of _ ol] bexI [of _ fo]) (simp_all add: fact_order_line_row_def)
qed

lemma build_fact_order_line_keys:
  assumes "build_fact_order_line k lines fos skms dps = Inr fols"
  shows "distinct (map fol_order_line_key fols)"
proof -
  from assms obtain js where "fols = map fact_order_line_row (with_keys k js)"
    by (auto simp: build_fact_order_line_def sql_bind_def split: sum.splits)
  moreover have "map fol_order_line_key (map fact_order_line_row (with_keys k js)) = map fst (with_keys k js)"
    by (auto simp: fact_order_line_row_def)
  ultimately show ?thesis by (simp add: with_keys_def)
qed


lemma unit_net_revenue_eq:
  "unit_net_revenue fol =
     Inr (case nullif (fol_quantity fol) 0 of None \<Rightarrow> None
          | Some q \<Rightarrow> map_option (\<lambda>n. n / of_int q) (fol_net_line_revenue fol))"
  by (auto simp: unit_net_revenue_def sql_div_def sql_numeric_def nullif_def split: option.splits)

lemma margin_percent_no_error:
  assumes "is_true (sql_gt net (Some 0))"
    and "u = (case nullif qty 0 of None \<Rightarrow> None | Some q \<Rightarrow> map_option (\<lambda>n. n / of_int q) net)"
  shows "sql_div (sql_sub u c) u = Inr (sql_lift2 (/) (sql_sub u c) u)"
  using assms
  by (auto simp: is_true_def sql_gt_def sql_lift2_def sql_div_def sql_sub_def nullif_def
           split: option.splits if_splits)


lemma update_cogs_keeps:
  assumes "update_cogs css a = Inr b"
  shows "fol_order_line_key b = fol_order_line_key a"
    "fol_order_key b = fol_order_key a"
    "fol_product_key b = fol_product_key a"
    "fol_quantity b = fol_quantity a"
    "fol_gross_line_revenue b = fol_gross_line_revenue a"
    "fol_line_discount b = fol_line_discount a"
    "fol_allocated_order_discount b = fol_allocated_order_discount a"
    "fol_net_line_revenue b = fol_net_line_revenue a"
  using assms
  by (auto simp: update_cogs_def sql_bind_def split: option.splits sum.splits if_splits)

lemma update_cogs_miss:
  "find (\<lambda>cs. fol_order_line_key a = cs_order_line_key cs) css = None \<Longrightarrow> update_cogs css a = Inr a"
  by (simp add: update_cogs_def)

lemma update_cogs_hit:
  assumes "find (\<lambda>cs. fol_order_line_key a = cs_order_line_key cs) css = Some cs"
    and "update_cogs css a = Inr b"
  shows "fol_estimated_cogs b = coalesce (cs_total_cogs cs) (Some 0)"
    "fol_has_missing_cost b = coalesce (cs_has_missing_cost cs) (Some True)"
    "Inr (fol_gross_margin b) =
       sql_bind (unit_net_revenue a) (\<lambda>u. Inr (sql_sub u (coalesce (cs_total_cogs cs) (Some 0))))"
    "Inr (fol_margin_percent b) =
       (if is_true (sql_gt (fol_net_line_revenue a) (Some 0))
        then sql_bind (unit_net_revenue a) (\<lambda>u.
             sql_bind (sql_div (sql_sub u (coalesce (cs_total_cogs cs) (Some 0))) u)
               (\<lambda>q. Inr (sql_mul q (Some 100))))
        else Inr (Some 0))"
  using assms
  by (auto simp: update_cogs_def sql_bind_def split: option.splits sum.splits if_splits)


lemma set_cogs_defaults_keeps:
  assumes "set_cogs_defaults a = Inr b"
  shows "fol_order_line_key b = fol_order_line_key a"
    "fol_order_key b = fol_order_key a"
    "fol_product_key b = fol_product_key a"
    "fol_quantity b = fol_quantity a"
    "fol_gross_line_revenue b = fol_gross_line_revenue a"
    "fol_line_discount b = fol_line_discount a"
    "fol_allocated_order_discount b = fol_allocated_order_discount a"
    "fol_net_line_revenue b = fol_net_line_revenue a"
  using assms
  by (auto simp: set_cogs_defaults_def sql_bind_def split: option.splits sum.splits if_splits)

lemma set_cogs_defaults_costed:
  "fol_estimated_cogs a \<noteq> None \<Longrightarrow> set_cogs_defaults a = Inr a"
  by (auto simp: set_cogs_defaults_def)

lemma set_cogs_defaults_uncosted:
  assumes "fol_estimated_cogs a = None" and "set_cogs_defaults a = Inr b"
  shows "fol_estimated_cogs b = Some 0" "fol_has_missing_cost b = Some True"
    "fol_margin_percent b = Some 100"
  using assms
  by (auto simp: set_cogs_defaults_def sql_bind_def split: sum.splits)



lemma in_update_fact_order_line_cogs:
  assumes "update_fact_order_line_cogs fces fols = Inr fols'" and "fol' \<in> set fols'"
  shows "\<exists>fol \<in> set fols. \<exists>fol1. update_cogs (cogs_summary fces) fol = Inr fol1 \<and>
           set_cogs_defaults fol1 = Inr fol'"
proof -
  from assms(1) obtain fols1 where a: "sql_rows (update_cogs (cogs_summary fces)) fols = Inr fols1"
    and b: "sql_rows set_cogs_defaults fols1 = Inr fols'"
    by (auto simp: update_fact_order_line_cogs_def sql_bind_def split: sum.splits)
  from sql_rows_result_mem [OF b assms(2)] obtain fol1 where "fol1 \<in> set fols1"
    and c: "set_cogs_defaults fol1 = Inr fol'" by blast
  with sql_rows_result_mem [OF a] obtain fol where "fol \<in> set fols"
    "update_cogs (cogs_summary fces) fol = Inr fol1" by blast
  with c show ?thesis by blast
qed



lemma build_facts_Inr:
  assumes "build_facts H db = Inr (fos, fols', fces)"
  obtains fols where
    "build_fact_order H (in_next_order_key db) (in_orders db) (in_order_lines db)
       (in_dim_customer db) (in_dim_channel db) (in_dim_shipping_method db) = Inr fos"
    "build_fact_order_line (in_next_order_line_key db) (in_order_lines db) fos
       (in_sku_map db) (in_dim_product db) = Inr fols"
    "fces = build_fact_cogs_estimate fols (in_dim_product db) (in_recipes db) (in_dim_material db)"
    "update_fact_order_line_cogs fces fols = Inr fols'"
  using assms by (auto simp: build_facts_def sql_bind_def Let_def split: sum.splits)


lemma cogs_summary_find:
  "find (\<lambda>cs. key = cs_order_line_key cs) (cogs_summary fces) =
     (if key \<in> fce_order_line_key ` set fces
      then Some \<lparr> cs_order_line_key = key,
                  cs_total_cogs = sql_sum (map fce_line_cost (filter (\<lambda>e. fce_order_line_key e = key) fces)),
                  cs_has_missing_cost =
                    bool_or (map (\<lambda>e. sql_not (fce_has_known_cost e))
                                 (filter (\<lambda>e. fce_order_line_key e = key) fces)) \<rparr>
      else None)"
  unfolding cogs_summary_def Let_def
  by (subst find_map_key) simp_all

lemma coalesce_sql_sum: "coalesce (sql_sum vs) (Some 0) = Some (sum_list (map (case_option 0 id) vs))"
proof (cases "\<forall>v \<in> set vs. v = None")
  case True
  have "(\<forall>v \<in> set ws. v = None) \<Longrightarrow> sum_list (map (case_option (0::rat) id) ws) = 0" for ws
    by (induction ws) auto
  with True have "sum_list (map (case_option (0::rat) id) vs) = 0" by blast
  with True show ?thesis by (simp add: coalesce_def sql_sum_def)
next
  case False
  then have "sql_sum vs = Some (sum_list (map (case_option 0 id) vs))"
    unfolding sql_sum_def by (rule if_not_P)
  then show ?thesis by (simp add: coalesce_def)
qed

lemma coalesce_bool_or:
  assumes "es \<noteq> []" and "\<forall>e \<in> set es. known e \<noteq> None"
  shows "coalesce (bool_or (map (\<lambda>e. sql_not (known e)) es)) (Some True)
         = Some (\<exists>e \<in> set es. known e = Some False)"
proof -
  have n: "Some True = sql_not v \<longleftrightarrow> v = Some False" for v
    by (cases v) (auto simp: sql_not_def)
  from assms obtain e where "e \<in> set es" "known e \<noteq> None" by (cases es) auto
  then have a: "\<not> (\<forall>v \<in> set (map (\<lambda>e. sql_not (known e)) es). v = None)"
    by (auto simp: sql_not_def)
  have b: "Some True \<in> set (map (\<lambda>e. sql_not (known e)) es) \<longleftrightarrow> (\<exists>e \<in> set es. known e = Some False)"
    by (simp add: image_iff n)
  from a have "bool_or (map (\<lambda>e. sql_not (known e)) es)
      = Some (Some True \<in> set (map (\<lambda>e. sql_not (known e)) es))"
    unfolding bool_or_def by (rule if_not_P)
  with b show ?thesis by (simp add: coalesce_def)
qed

lemma in_build_fact_cogs_estimate:
  assumes "e \<in> set (build_fact_cogs_estimate fols dps recipes dms)"
  shows "fce_has_known_cost e \<noteq> None"
    and "\<exists>fol \<in> set fols. \<exists>dp \<in> set dps. \<exists>r \<in> set recipes.
           fce_order_line_key e = fol_order_line_key fol \<and>
           fol_product_key fol = Some (dp_product_key dp) \<and> is_true (recipe_matches dp r)"
proof -
  from assms obtain fol dp r dm where e: "e = fact_cogs_estimate_row (((fol, dp), r), dm)"
    and j: "(((fol, dp), r), dm) \<in> set (left_join (\<lambda>((fol, dp), r) dm. sql_eq (r_material_id r) (dm_material_id dm))
             (inner_join (\<lambda>(fol, dp) r. recipe_matches dp r)
                (inner_join (\<lambda>fol dp. sql_eq (fol_product_key fol) (Some (dp_product_key dp))) fols dps)
                recipes)
             dms)"
    unfolding build_fact_cogs_estimate_def by auto
  from e show "fce_has_known_cost e \<noteq> None"
    by (cases "col dm_has_known_cost dm") (simp_all add: fact_cogs_estimate_row_def coalesce_def)
  from j have "((fol, dp), r) \<in> set (inner_join (\<lambda>(fol, dp) r. recipe_matches dp r)
                (inner_join (\<lambda>fol dp. sql_eq (fol_product_key fol) (Some (dp_product_key dp))) fols dps)
                recipes)"
    by (simp add: in_left_join)
  then have "fol \<in> set fols" "dp \<in> set dps" "r \<in> set recipes" "is_true (recipe_matches dp r)"
    "is_true (sql_eq (fol_product_key fol) (Some (dp_product_key dp)))"
    by (auto simp: in_inner_join)
  moreover from this have "fol_product_key fol = Some (dp_product_key dp)"
    by (auto simp: is_true_def sql_eq_def sql_lift2_def split: option.splits)
  ultimately show "\<exists>fol \<in> set fols. \<exists>dp \<in> set dps. \<exists>r \<in> set recipes.
           fce_order_line_key e = fol_order_line_key fol \<and>
           fol_product_key fol = Some (dp_product_key dp) \<and> is_true (recipe_matches dp r)"
    using e by (auto simp: fact_cogs_estimate_row_def)
qed





lemma update_fact_order_line_cogs_keys:
  assumes "update_fact_order_line_cogs fces fols = Inr fols'"
  shows "map fol_order_line_key fols' = map fol_order_line_key fols"
proof -
  from assms obtain fols1 where a: "sql_rows (update_cogs (cogs_summary fces)) fols = Inr fols1"
    and b: "sql_rows set_cogs_defaults fols1 = Inr fols'"
    by (auto simp: update_fact_order_line_cogs_def sql_bind_def split: sum.splits)
  have "map fol_order_line_key fols1 = map fol_order_line_key fols"
    using a by (rule sql_rows_map) (simp add: update_cogs_keeps)
  moreover have "map fol_order_line_key fols' = map fol_order_line_key fols1"
    using b by (rule sql_rows_map) (simp add: set_cogs_defaults_keeps)
  ultimately show ?thesis by simp
qed


lemma final_line_origin:
  assumes "build_facts H db = Inr (fos, fols', fces)" and "fol' \<in> set fols'"
  obtains fols fol fol1 where
    "build_fact_order H (in_next_order_key db) (in_orders db) (in_order_lines db)
       (in_dim_customer db) (in_dim_channel db) (in_dim_shipping_method db) = Inr fos"
    "build_fact_order_line (in_next_order_line_key db) (in_order_lines db) fos
       (in_sku_map db) (in_dim_product db) = Inr fols"
    "fces = build_fact_cogs_estimate fols (in_dim_product db) (in_recipes db) (in_dim_material db)"
    "fol \<in> set fols"
    "update_cogs (cogs_summary fces) fol = Inr fol1"
    "set_cogs_defaults fol1 = Inr fol'"
proof -
  from assms(1) obtain fols where a:
    "build_fact_order H (in_next_order_key db) (in_orders db) (in_order_lines db)
       (in_dim_customer db) (in_dim_channel db) (in_dim_shipping_method db) = Inr fos"
    "build_fact_order_line (in_next_order_line_key db) (in_order_lines db) fos
       (in_sku_map db) (in_dim_product db) = Inr fols"
    "fces = build_fact_cogs_estimate fols (in_dim_product db) (in_recipes db) (in_dim_material db)"
    "update_fact_order_line_cogs fces fols = Inr fols'"
    by (rule build_facts_Inr)
  from in_update_fact_order_line_cogs [OF a(4) assms(2)] obtain fol fol1 where
    "fol \<in> set fols" "update_cogs (cogs_summary fces) fol = Inr fol1" "set_cogs_defaults fol1 = Inr fol'"
    by blast
  with a that show ?thesis by blast
qed

lemma final_line_costed:
  assumes "build_facts H db = Inr (fos, fols', fces)" and "fol' \<in> set fols'"
    and "e0 \<in> set fces" and "fce_order_line_key e0 = fol_order_line_key fol'"
  shows "fol_estimated_cogs fol' =
           Some (sum_list (map (case_option 0 id)
             (map fce_line_cost (filter (\<lambda>e. fce_order_line_key e = fol_order_line_key fol') fces))))"
    and "fol_has_missing_cost fol' =
           Some (\<exists>e \<in> set fces. fce_order_line_key e = fol_order_line_key fol' \<and> fce_has_known_cost e = Some False)"
    and "fol_gross_margin fol' = sql_sub (per_unit_net fol') (fol_estimated_cogs fol')"
    and "fol_margin_percent fol' =
           (if is_true (sql_gt (fol_net_line_revenue fol') (Some 0))
            then sql_mul (sql_lift2 (/) (sql_sub (per_unit_net fol') (fol_estimated_cogs fol')) (per_unit_net fol'))
                         (Some 100)
            else Some 0)"
proof -
  from assms(1,2) obtain fols fol fol1 where
    c: "fces = build_fact_cogs_estimate fols (in_dim_product db) (in_recipes db) (in_dim_material db)"
    and u: "update_cogs (cogs_summary fces) fol = Inr fol1"
    and d: "set_cogs_defaults fol1 = Inr fol'"
    by (rule final_line_origin)
  let ?key = "fol_order_line_key fol"
  let ?g = "filter (\<lambda>e. fce_order_line_key e = ?key) fces"
  let ?cs = "\<lparr> cs_order_line_key = ?key,
              cs_total_cogs = sql_sum (map fce_line_cost ?g),
              cs_has_missing_cost = bool_or (map (\<lambda>e. sql_not (fce_has_known_cost e)) ?g) \<rparr>"
  have k: "fol_order_line_key fol' = ?key"
    using update_cogs_keeps(1) [OF u] set_cogs_defaults_keeps(1) [OF d] by simp
  with assms(3,4) have m: "?key \<in> fce_order_line_key ` set fces" by force
  then have f: "find (\<lambda>cs. ?key = cs_order_line_key cs) (cogs_summary fces) = Some ?cs"
    by (simp add: cogs_summary_find)
  have est1: "fol_estimated_cogs fol1 = Some (sum_list (map (case_option 0 id) (map fce_line_cost ?g)))"
    using update_cogs_hit(1) [OF f u] by (simp add: coalesce_sql_sum)
  then have same: "fol' = fol1"
    using d by (simp add: set_cogs_defaults_costed)
  from est1 same k show "fol_estimated_cogs fol' =
           Some (sum_list (map (case_option 0 id)
             (map fce_line_cost (filter (\<lambda>e. fce_order_line_key e = fol_order_line_key fol') fces))))"
    by simp
  have ne: "?g \<noteq> []" using assms(3,4) k by (auto simp: filter_empty_conv)
  have kn: "\<forall>e \<in> set ?g. fce_has_known_cost e \<noteq> None"
    using c in_build_fact_cogs_estimate(1) by auto
  have "fol_has_missing_cost fol1 = Some (\<exists>e \<in> set ?g. fce_has_known_cost e = Some False)"
    using update_cogs_hit(2) [OF f u] coalesce_bool_or [OF ne kn] by simp
  with same k show "fol_has_missing_cost fol' =
           Some (\<exists>e \<in> set fces. fce_order_line_key e = fol_order_line_key fol' \<and> fce_has_known_cost e = Some False)"
    by auto
  have q: "fol_quantity fol1 = fol_quantity fol" "fol_net_line_revenue fol1 = fol_net_line_revenue fol"
    using update_cogs_keeps [OF u] by simp_all
  have pu: "per_unit_net fol1 = per_unit_net fol" by (simp only: per_unit_net_def q)
  have un: "unit_net_revenue fol = Inr (per_unit_net fol)"
    by (simp add: unit_net_revenue_eq per_unit_net_def)
  have e1: "coalesce (cs_total_cogs ?cs) (Some 0) = fol_estimated_cogs fol1"
    using update_cogs_hit(1) [OF f u] by simp
  have "Inr (fol_gross_margin fol1) = Inr (sql_sub (per_unit_net fol) (fol_estimated_cogs fol1))"
    using update_cogs_hit(3) [OF f u] unfolding e1 un by (simp add: sql_bind_def)
  with same pu show "fol_gross_margin fol' = sql_sub (per_unit_net fol') (fol_estimated_cogs fol')"
    by simp
  show "fol_margin_percent fol' =
           (if is_true (sql_gt (fol_net_line_revenue fol') (Some 0))
            then sql_mul (sql_lift2 (/) (sql_sub (per_unit_net fol') (fol_estimated_cogs fol')) (per_unit_net fol'))
                         (Some 100)
            else Some 0)"
  proof (cases "is_true (sql_gt (fol_net_line_revenue fol) (Some 0))")
    case True
    have "sql_div (sql_sub (per_unit_net fol) (fol_estimated_cogs fol1)) (per_unit_net fol)
          = Inr (sql_lift2 (/) (sql_sub (per_unit_net fol) (fol_estimated_cogs fol1)) (per_unit_net fol))"
      using margin_percent_no_error [OF True] by (simp add: per_unit_net_def)
    then have "Inr (fol_margin_percent fol1) =
        Inr (sql_mul (sql_lift2 (/) (sql_sub (per_unit_net fol) (fol_estimated_cogs fol1)) (per_unit_net fol)) (Some 100))"
      using update_cogs_hit(4) [OF f u] True unfolding e1 un by (simp add: sql_bind_def)
    with True same pu q show ?thesis by simp
  next
    case False
    then have "Inr (fol_margin_percent fol1) = Inr (Some 0)"
      using update_cogs_hit(4) [OF f u] by simp
    with False same q show ?thesis by simp
  qed
qed

lemma final_line_uncosted:
  assumes "build_facts H db = Inr (fos, fols', fces)" and "fol' \<in> set fols'"
    and "\<forall>e \<in> set fces. fce_order_line_key e \<noteq> fol_order_line_key fol'"
  shows "fol_estimated_cogs fol' = Some 0" "fol_has_missing_cost fol' = Some True"
    "fol_margin_percent fol' = Some 100"
proof -
  from assms(1,2) obtain fols fol fol1 where
    b: "build_fact_order_line (in_next_order_line_key db) (in_order_lines db) fos
       (in_sku_map db) (in_dim_product db) = Inr fols"
    and i: "fol \<in> set fols"
    and u: "update_cogs (cogs_summary fces) fol = Inr fol1"
    and d: "set_cogs_defaults fol1 = Inr fol'"
    by (rule final_line_origin)
  have k: "fol_order_line_key fol' = fol_order_line_key fol"
    using update_cogs_keeps(1) [OF u] set_cogs_defaults_keeps(1) [OF d] by simp
  with assms(3) have "fol_order_line_key fol \<notin> fce_order_line_key ` set fces" by force
  then have "find (\<lambda>cs. fol_order_line_key fol = cs_order_line_key cs) (cogs_summary fces) = None"
    by (simp add: cogs_summary_find)
  then have "update_cogs (cogs_summary fces) fol = Inr fol" by (rule update_cogs_miss)
  with u have "fol1 = fol" by simp
  moreover from in_build_fact_order_line [OF b i] have "fol_estimated_cogs fol = None" by blast
  ultimately have n: "fol_estimated_cogs fol1 = None" by simp
  from set_cogs_defaults_uncosted [OF n d]
  show "fol_estimated_cogs fol' = Some 0" "fol_has_missing_cost fol' = Some True"
    "fol_margin_percent fol' = Some 100" by simp_all
qed

lemma cogs_rows_have_recipe:
  assumes "build_facts H db = Inr (fos, fols', fces)" and "fol' \<in> set fols'"
    and "e \<in> set fces" and "fce_order_line_key e = fol_order_line_key fol'"
  shows "\<exists>dp \<in> set (in_dim_product db). \<exists>r \<in> set (in_recipes db).
           fol_product_key fol' = Some (dp_product_key dp) \<and> is_true (recipe_matches dp r)"
proof -
  from assms(1,2) obtain fols fol fol1 where
    b: "build_fact_order_line (in_next_order_line_key db) (in_order_lines db) fos
       (in_sku_map db) (in_dim_product db) = Inr fols"
    and c: "fces = build_fact_cogs_estimate fols (in_dim_product db) (in_recipes db) (in_dim_material db)"
    and i: "fol \<in> set fols"
    and u: "update_cogs (cogs_summary fces) fol = Inr fol1"
    and d: "set_cogs_defaults fol1 = Inr fol'"
    by (rule final_line_origin)
  have k: "fol_order_line_key fol' = fol_order_line_key fol"
    and p: "fol_product_key fol' = fol_product_key fol"
    using update_cogs_keeps [OF u] set_cogs_defaults_keeps [OF d] by simp_all
  from assms(3) c in_build_fact_cogs_estimate(2) obtain fol0 dp r where
    o: "fol0 \<in> set fols" "dp \<in> set (in_dim_product db)" "r \<in> set (in_recipes db)"
      "fce_order_line_key e = fol_order_line_key fol0"
      "fol_product_key fol0 = Some (dp_product_key dp)" "is_true (recipe_matches dp r)"
    by blast
  from build_fact_order_line_keys [OF b] o(1) i o(4) assms(4) k have "fol0 = fol"
    by (intro distinct_map_eq [of fol_order_line_key fols]) simp_all
  with o p show ?thesis by auto
qed










lemma demo_build:
  "build_facts toy_sha256_hex demo_db =
     Inr (fact_orders (build_facts toy_sha256_hex demo_db),
          fact_lines (build_facts toy_sha256_hex demo_db),
          cogs_estimates (build_facts toy_sha256_hex demo_db))"
  by code_simp




text \<open>
  Claim C2.  For every row of \<open>warehouse.fact_order_line\<close> that has at least one row in
  \<open>warehouse.fact_cogs_estimate\<close>, \<open>has_missing_cost\<close> is true exactly when one of its
  estimate rows has \<open>has_known_cost = false\<close>, and \<open>estimated_cogs\<close> is the sum of the
  \<open>line_cost\<close> of its estimate rows (\<open>SUM\<close> skips a NULL \<open>line_cost\<close>).
\<close>

theorem C2_cogs_rollup:
  assumes "build_facts H db = Inr (fos, fols, fces)" and "fol \<in> set fols"
    and "\<exists>e \<in> set fces. fce_order_line_key e = fol_order_line_key fol"
  shows "fol_has_missing_cost fol =
           Some (\<exists>e \<in> set fces. fce_order_line_key e = fol_order_line_key fol \<and>
                                  fce_has_known_cost e = Some False) \<and>
         fol_estimated_cogs fol =
           Some (sum_list (map (case_option 0 id)
                   (map fce_line_cost
                      (filter (\<lambda>e. fce_order_line_key e = fol_order_line_key fol) fces))))"
proof -
  from assms(3) obtain e0 where "e0 \<in> set fces" "fce_order_line_key e0 = fol_order_line_key fol"
    by blast
  from final_line_costed(1,2) [OF assms(1,2) this] show ?thesis by simp
qed

theorem C2_cogs_rollup_witness:
  "fol_has_missing_cost (fact_lines (build_facts toy_sha256_hex demo_db) ! 0) = Some True \<and>
   fol_estimated_cogs (fact_lines (build_facts toy_sha256_hex demo_db) ! 0) = Some (5 / 2)"
proof -
  let ?res = "build_facts toy_sha256_hex demo_db"
  have m: "fact_lines ?res ! 0 \<in> set (fact_lines ?res)" by code_simp
  have e: "\<exists>e \<in> set (cogs_estimates ?res).
             fce_order_line_key e = fol_order_line_key (fact_lines ?res ! 0)" by code_simp
  have v: "(\<exists>e \<in> set (cogs_estimates ?res).
              fce_order_line_key e = fol_order_line_key (fact_lines ?res ! 0) \<and>
              fce_has_known_cost e = Some False) = True"
    "sum_list (map (case_option 0 id)
                   (map fce_line_cost
                      (filter (\<lambda>e. fce_order_line_key e = fol_order_line_key (fact_lines ?res ! 0))
                         (cogs_estimates ?res)))) = (5 / 2 :: rat)"
    by code_simp+
  from C2_cogs_rollup [OF demo_build m e] show ?thesis by (simp only: v)
qed




text \<open>
  Claim C4.  A row of \<open>warehouse.fact_order_line\<close> whose product key is NULL, or whose
  product has no recipe row with its recipe id, its size as batch size and the variant
  \<open>final\<close>, has no estimate row and ends the build with \<open>estimated_cogs = 0\<close>,
  \<open>has_missing_cost = true\<close> and \<open>margin_percent = 100\<close>.
\<close>

theorem C4_defaults_without_recipe:
  assumes "build_facts H db = Inr (fos, fols, fces)" and "fol \<in> set fols"
    and "fol_product_key fol = None \<or>
         (\<forall>dp \<in> set (in_dim_product db). \<forall>r \<in> set (in_recipes db).
            fol_product_key fol = Some (dp_product_key dp) \<longrightarrow> \<not> is_true (recipe_matches dp r))"
  shows "fol_estimated_cogs fol = Some 0 \<and> fol_has_missing_cost fol = Some True \<and>
         fol_margin_percent fol = Some 100 \<and>
         (\<forall>e \<in> set fces. fce_order_line_key e \<noteq> fol_order_line_key fol)"
proof -
  have n: "\<forall>e \<in> set fces. fce_order_line_key e \<noteq> fol_order_line_key fol"
  proof
    fix e
    assume e: "e \<in> set fces"
    show "fce_order_line_key e \<noteq> fol_order_line_key fol"
    proof
      assume "fce_order_line_key e = fol_order_line_key fol"
      from cogs_rows_have_recipe [OF assms(1,2) e this] assms(3) show False by auto
    qed
  qed
  from final_line_uncosted [OF assms(1,2) n] n show ?thesis by simp
qed

theorem C4_defaults_without_recipe_witness:
  "fol_product_key (fact_lines (build_facts toy_sha256_hex demo_db) ! 1) = None \<and>
   fol_estimated_cogs (fact_lines (build_facts toy_sha256_hex demo_db) ! 1) = Some 0 \<and>
   fol_has_missing_cost (fact_lines (build_facts toy_sha256_hex demo_db) ! 1) = Some True \<and>
   fol_margin_percent (fact_lines (build_facts toy_sha256_hex demo_db) ! 1) = Some 100"
proof -
  let ?res = "build_facts toy_sha256_hex demo_db"
  have m: "fact_lines ?res ! 1 \<in> set (fact_lines ?res)"
    and k: "fol_product_key (fact_lines ?res ! 1) = None"
    by code_simp+
  from k have h: "fol_product_key (fact_lines ?res ! 1) = None \<or>
         (\<forall>dp \<in> set (in_dim_product demo_db). \<forall>r \<in> set (in_recipes demo_db).
            fol_product_key (fact_lines ?res ! 1) = Some (dp_product_key dp) \<longrightarrow>
            \<not> is_true (recipe_matches dp r))" by (rule disjI1)
  from C4_defaults_without_recipe [OF demo_build m h] k show ?thesis by simp
qed


lemma fact_order_row_unlined:
  assumes "fact_order_row chs sms (k, ((((so, None), dc), ch), sm)) = Inr fo"
  shows "fo_line_item_count fo = Some 1" "fo_unit_count fo = Some 1"
    "fo_gross_product_sales fo = sql_add (o_subtotal so) (o_discount_amount so)"
  using fact_order_row_fields [OF assms] by (simp_all add: coalesce_def col_def)

text \<open>
  Claim C10.  A staged order that no staged order line is joined to has a row in
  \<open>warehouse.fact_order\<close>, and every row of that order reports \<open>line_item_count = 1\<close>
  and \<open>unit_count = 1\<close>, with \<open>gross_product_sales = subtotal + discount_amount\<close>.
\<close>

theorem C10_order_without_lines:
  assumes "build_facts H db = Inr (fos, fols, fces)" and "so \<in> set (in_orders db)"
    and "\<forall>l \<in> set (in_order_lines db). \<not> is_true (sql_eq (o_order_id so) (ol_order_id l))"
  shows "(\<exists>fo \<in> set fos.
            fo_order_id fo = o_order_id so \<and> fo_subtotal fo = o_subtotal so \<and>
            fo_order_discount_amount fo = o_discount_amount so \<and>
            fo_line_item_count fo = Some 1 \<and> fo_unit_count fo = Some 1 \<and>
            fo_gross_product_sales fo = sql_add (o_subtotal so) (o_discount_amount so)) \<and>
         (\<forall>fo \<in> set fos. is_true (sql_eq (fo_order_id fo) (o_order_id so)) \<longrightarrow>
            fo_line_item_count fo = Some 1 \<and> fo_unit_count fo = Some 1 \<and>
            fo_gross_product_sales fo = sql_add (fo_subtotal fo) (fo_order_discount_amount fo))"
proof
  let ?from = "fact_order_from H (in_orders db) (in_order_lines db) (in_dim_customer db)
                 (in_dim_channel db) (in_dim_shipping_method db)"
  from assms(1) have b: "sql_rows (fact_order_row (in_dim_channel db) (in_dim_shipping_method db))
      (with_keys (in_next_order_key db) ?from) = Inr fos"
    by (auto elim: build_facts_Inr simp: build_fact_order_def)
  {
    from fact_order_from_total [OF assms(2)] obtain ols dc ch sm where
      j: "((((so, ols), dc), ch), sm) \<in> set ?from" by blast
    from in_fact_order_from(2) [OF j] assms(3) have n: "ols = None" by (cases ols) auto
    from with_keys_total [OF j] obtain k where "(k, ((((so, ols), dc), ch), sm)) \<in> set (with_keys (in_next_order_key db) ?from)"
      by blast
    from sql_rows_source_mem [OF b this] n obtain fo where f: "fo \<in> set fos"
      "fact_order_row (in_dim_channel db) (in_dim_shipping_method db) (k, ((((so, None), dc), ch), sm)) = Inr fo"
      by blast
    from fact_order_row_fields(2,3,4) [OF f(2)] fact_order_row_unlined [OF f(2)] f(1)
    show "\<exists>fo \<in> set fos.
            fo_order_id fo = o_order_id so \<and> fo_subtotal fo = o_subtotal so \<and>
            fo_order_discount_amount fo = o_discount_amount so \<and>
            fo_line_item_count fo = Some 1 \<and> fo_unit_count fo = Some 1 \<and>
            fo_gross_product_sales fo = sql_add (o_subtotal so) (o_discount_amount so)"
      by blast
  }
  show "\<forall>fo \<in> set fos. is_true (sql_eq (fo_order_id fo) (o_order_id so)) \<longrightarrow>
            fo_line_item_count fo = Some 1 \<and> fo_unit_count fo = Some 1 \<and>
            fo_gross_product_sales fo = sql_add (fo_subtotal fo) (fo_order_discount_amount fo)"
  proof (intro ballI impI)
    fix fo
    assume m: "fo \<in> set fos" and t: "is_true (sql_eq (fo_order_id fo) (o_order_id so))"
    from sql_rows_result_mem [OF b m] obtain k so' ols dc ch sm where
      w: "(k, ((((so', ols), dc), ch), sm)) \<in> set (with_keys (in_next_order_key db) ?from)"
      and r: "fact_order_row (in_dim_channel db) (in_dim_shipping_method db) (k, ((((so', ols), dc), ch), sm)) = Inr fo"
      by (metis prod.exhaust)
    from in_with_keys [OF w] have j: "((((so', ols), dc), ch), sm) \<in> set ?from" .
    from t fact_order_row_fields(2) [OF r] have i: "o_order_id so' = o_order_id so"
      by (auto simp: is_true_def sql_eq_def sql_lift2_def split: option.splits)
    from in_fact_order_from(2) [OF j] assms(3) i have n: "ols = None" by (cases ols) auto
    from fact_order_row_unlined [OF r [unfolded n]] fact_order_row_fields(3,4) [OF r]
    show "fo_line_item_count fo = Some 1 \<and> fo_unit_count fo = Some 1 \<and>
            fo_gross_product_sales fo = sql_add (fo_subtotal fo) (fo_order_discount_amount fo)"
      by simp
  qed
qed

theorem C10_order_without_lines_witness:
  "fo_order_id (fact_orders (build_facts toy_sha256_hex demo_db) ! 1) = Some 2 \<and>
   fo_line_item_count (fact_orders (build_facts toy_sha256_hex demo_db) ! 1) = Some 1 \<and>
   fo_unit_count (fact_orders (build_facts toy_sha256_hex demo_db) ! 1) = Some 1 \<and>
   fo_gross_product_sales (fact_orders (build_facts toy_sha256_hex demo_db) ! 1) = Some 15"
proof -
  let ?res = "build_facts toy_sha256_hex demo_db"
  have so: "in_orders demo_db ! 1 \<in> set (in_orders demo_db)"
    and nl: "\<forall>l \<in> set (in_order_lines demo_db).
               \<not> is_true (sql_eq (o_order_id (in_orders demo_db ! 1)) (ol_order_id l))"
    and m: "fact_orders ?res ! 1 \<in> set (fact_orders ?res)"
    and t: "is_true (sql_eq (fo_order_id (fact_orders ?res ! 1)) (o_order_id (in_orders demo_db ! 1)))"
    and v: "fo_order_id (fact_orders ?res ! 1) = Some 2"
      "sql_add (fo_subtotal (fact_orders ?res ! 1)) (fo_order_discount_amount (fact_orders ?res ! 1)) = Some 15"
    by code_simp+
  from C10_order_without_lines [OF demo_build so nl] m t
  have "fo_line_item_count (fact_orders ?res ! 1) = Some 1 \<and> fo_unit_count (fact_orders ?res ! 1) = Some 1 \<and>
        fo_gross_product_sales (fact_orders ?res ! 1)
          = sql_add (fo_subtotal (fact_orders ?res ! 1)) (fo_order_discount_amount (fact_orders ?res ! 1))"
    by blast
  with v show ?thesis by simp
qed

section \<open>Staged orders and the dimensions\<close>

lemma set_distinct_on: "set (distinct_on key xs) \<subseteq> set xs"
  by (induction key xs rule: distinct_on.induct) auto

lemma stg_order_row_id:
  assumes "stg_order_row c r = Inr so" and "not_blank (raw_id r)"
  shows "o_order_id so \<noteq> None"
proof -
  from assms(2) obtain t where t: "raw_id r = Some t" "t \<noteq> []"
    by (auto simp: not_blank_def split: option.splits)
  from assms(1) obtain order_id where "cast_col (cast_bigint c) (raw_id r) = Inr order_id"
    and "o_order_id so = order_id"
    by (auto simp: stg_order_row_def sql_bind_def split: sum.splits)
  with t show ?thesis
    by (cases "cast_bigint c t") (auto simp: cast_col_def nullif_def)
qed

lemma build_stg_orders_ids:
  assumes "build_stg_orders c raw = Inr orders" and "so \<in> set orders"
  shows "o_order_id so \<noteq> None"
proof -
  from assms(1) obtain rows where
    r: "sql_rows (\<lambda>r. sql_bind (stg_order_row c r) (\<lambda>so. Inr (raw_id r, so)))
          (filter (\<lambda>r. not_blank (raw_id r)) raw) = Inr rows"
    and o: "orders = map snd (distinct_on fst
               (sort_key (\<lambda>(i, so). (i, nulls_last (o_created_at so))) rows))"
    by (auto simp: build_stg_orders_def sql_bind_def split: sum.splits)
  from o assms(2) obtain i where "(i, so) \<in> set (distinct_on fst
               (sort_key (\<lambda>(i, so). (i, nulls_last (o_created_at so))) rows))"
    by auto
  with set_distinct_on have "(i, so) \<in> set rows" by fastforce
  from sql_rows_result_mem [OF r this] obtain x where x: "x \<in> set (filter (\<lambda>r. not_blank (raw_id r)) raw)"
    and e: "sql_bind (stg_order_row c x) (\<lambda>so. Inr (raw_id x, so)) = Inr (i, so)"
    by blast
  from e have "stg_order_row c x = Inr so"
    by (cases "stg_order_row c x") (auto simp: sql_bind_def)
  moreover from x have "not_blank (raw_id x)" by simp
  ultimately show ?thesis by (rule stg_order_row_id)
qed

lemma in_order_customers:
  assumes "oc \<in> set (order_customers orders)"
  shows "\<exists>so \<in> set orders. not_blank (o_email so) \<and> oc_email oc = o_email so"
  using assms by (auto simp: order_customers_def Let_def)

lemma customer_stats_emails:
  "map cst_email (customer_stats orders) = remdups (map o_email orders)"
  by (simp add: customer_stats_def Let_def comp_def)

lemma in_customer_stats:
  assumes "cs \<in> set (customer_stats orders)"
  shows "\<exists>so \<in> set orders. o_email so = cst_email cs"
    and "cst_total_orders cs =
           Some (count_distinct (map o_order_id (filter (\<lambda>so. o_email so = cst_email cs) orders)))"
proof -
  from assms have "cst_email cs \<in> set (map cst_email (customer_stats orders))" by simp
  then have "cst_email cs \<in> set (map o_email orders)"
    by (simp only: customer_stats_emails set_remdups)
  then show "\<exists>so \<in> set orders. o_email so = cst_email cs" by auto
  from assms show "cst_total_orders cs =
           Some (count_distinct (map o_order_id (filter (\<lambda>so. o_email so = cst_email cs) orders)))"
    by (auto simp: customer_stats_def Let_def)
qed

lemma count_distinct_pos:
  assumes "Some v \<in> set vs"
  shows "1 \<le> count_distinct vs"
proof -
  from assms have "v \<in> set (remdups (concat (map (case_option [] (\<lambda>v. [v])) vs)))"
    by (auto intro!: bexI [of _ "Some v"])
  then have "0 < length (remdups (concat (map (case_option [] (\<lambda>v. [v])) vs)))"
    by (rule length_pos_if_in_set)
  then show ?thesis unfolding count_distinct_def by linarith
qed

lemma customer_stats_total_pos:
  assumes "\<forall>so \<in> set orders. o_order_id so \<noteq> None" and "cs \<in> set (customer_stats orders)"
  shows "\<exists>n. cst_total_orders cs = Some n \<and> 1 \<le> n"
proof -
  from in_customer_stats(1) [OF assms(2)] obtain so where so: "so \<in> set orders" "o_email so = cst_email cs"
    by blast
  with assms(1) obtain v where "o_order_id so = Some v" by auto
  with so have "Some v \<in> set (map o_order_id (filter (\<lambda>so. o_email so = cst_email cs) orders))"
    by force
  from count_distinct_pos [OF this] in_customer_stats(2) [OF assms(2)] show ?thesis by simp
qed

lemma in_build_dim_customer:
  assumes "dc \<in> set (build_dim_customer H k orders customers)"
  obtains key oc c cs where
    "dc = dim_customer_row H (key, ((oc, c), cs))"
    "oc \<in> set (order_customers orders)"
    "case cs of None \<Rightarrow> \<forall>s \<in> set (customer_stats orders).
                          \<not> is_true (sql_eq (map_option lower (oc_email oc)) (map_option lower (cst_email s)))
     | Some s \<Rightarrow> s \<in> set (customer_stats orders)"
proof -
  from assms obtain key oc c cs where d: "dc = dim_customer_row H (key, ((oc, c), cs))"
    and j: "((oc, c), cs) \<in> set (left_join (\<lambda>(oc, c) cs. sql_eq (map_option lower (oc_email oc)) (map_option lower (cst_email cs)))
             (left_join (\<lambda>oc c. sql_eq (map_option lower (oc_email oc)) (map_option lower (c_email c)))
                (order_customers orders) customers)
             (customer_stats orders))"
    unfolding build_dim_customer_def by (auto dest: in_with_keys)
  from j have "oc \<in> set (order_customers orders)"
    and "case cs of None \<Rightarrow> \<forall>s \<in> set (customer_stats orders).
                          \<not> is_true (sql_eq (map_option lower (oc_email oc)) (map_option lower (cst_email s)))
     | Some s \<Rightarrow> s \<in> set (customer_stats orders)"
    by (auto simp: in_left_join split: option.splits)
  with d that show ?thesis by blast
qed

lemma dim_customer_has_stats:
  assumes "oc \<in> set (order_customers orders)"
  shows "\<exists>s \<in> set (customer_stats orders).
           is_true (sql_eq (map_option lower (oc_email oc)) (map_option lower (cst_email s)))"
proof -
  from in_order_customers [OF assms] obtain so where so: "so \<in> set orders" "not_blank (o_email so)"
    "oc_email oc = o_email so" by blast
  then have "o_email so \<in> set (map cst_email (customer_stats orders))"
    by (simp only: customer_stats_emails set_remdups) simp
  then obtain s where s: "s \<in> set (customer_stats orders)" "cst_email s = o_email so" by auto
  from so(2) obtain e where "o_email so = Some e" by (auto simp: not_blank_def split: option.splits)
  with s so(3) have "is_true (sql_eq (map_option lower (oc_email oc)) (map_option lower (cst_email s)))"
    by (simp add: is_true_def sql_eq_def sql_lift2_def)
  with s(1) show ?thesis by blast
qed

lemma customer_segment_cases:
  "customer_segment (Some n) =
     (if n = 0 then ''prospect'' else if n = 1 then ''new'' else if 2 \<le> n then ''returning''
      else ''unknown'')"
  by (simp add: customer_segment_def coalesce_def is_true_def sql_eq_def sql_ge_def sql_lift2_def)

text \<open>
  Claim C9.  When the customer dimension is built from the orders that the staging build
  produced, every one of its rows has \<open>total_orders\<close> at least 1, and its segment is
  \<open>new\<close> (exactly one order) or \<open>returning\<close> (two or more): \<open>prospect\<close> and \<open>unknown\<close>
  do not occur.
\<close>

theorem C9_customer_has_orders:
  assumes "build_stg_orders c raw = Inr orders"
    and "dc \<in> set (build_dim_customer H k orders customers)"
  shows "\<exists>n. dc_total_orders dc = Some n \<and> 1 \<le> n \<and>
             dc_customer_segment dc = Some (if n = 1 then ''new'' else ''returning'')"
proof -
  from assms(2) obtain key oc cu cs where
    d: "dc = dim_customer_row H (key, ((oc, cu), cs))"
    and oc: "oc \<in> set (order_customers orders)"
    and cs: "case cs of None \<Rightarrow> \<forall>s \<in> set (customer_stats orders).
                          \<not> is_true (sql_eq (map_option lower (oc_email oc)) (map_option lower (cst_email s)))
     | Some s \<Rightarrow> s \<in> set (customer_stats orders)"
    by (rule in_build_dim_customer)
  from dim_customer_has_stats [OF oc] cs obtain s where s: "cs = Some s" "s \<in> set (customer_stats orders)"
    by (cases cs) auto
  have "\<forall>so \<in> set orders. o_order_id so \<noteq> None"
    using build_stg_orders_ids [OF assms(1)] by blast
  from customer_stats_total_pos [OF this s(2)] obtain n where n: "cst_total_orders s = Some n" "1 \<le> n"
    by blast
  from d s(1) n have "dc_total_orders dc = Some n"
    and "dc_customer_segment dc = Some (customer_segment (Some n))"
    by (simp_all add: dim_customer_row_def col_def coalesce_def)
  with n(2) show ?thesis by (auto simp: customer_segment_cases)
qed

lemma demo_stg_orders:
  "build_stg_orders toy_casts demo_raw_orders = Inr demo_staged_orders"
  by code_simp

theorem C9_customer_has_orders_witness:
  "dc_total_orders (build_dim_customer toy_sha256_hex 1 demo_staged_orders [] ! 0) = Some 1 \<and>
   dc_customer_segment (build_dim_customer toy_sha256_hex 1 demo_staged_orders [] ! 0) = Some ''new''"
proof -
  let ?dim = "build_dim_customer toy_sha256_hex 1 demo_staged_orders []"
  have m: "?dim ! 0 \<in> set ?dim" by code_simp
  have v: "dc_total_orders (?dim ! 0) = Some 1" by code_simp
  from C9_customer_has_orders [OF demo_stg_orders m] v show ?thesis by auto
qed

text \<open>
  Claim C5.  The customer key of a dimension row is the digest of \<open>LOWER(email)\<close> of a
  staged order email; the statement does not trim it.  At the staged email
  \<open>" A@b.com "\<close> the dimension hashes \<open>" a@b.com "\<close> with its blanks, whereas
  \<open>hash_email\<close> hashes the trimmed \<open>"a@b.com"\<close>.
\<close>

theorem C5_customer_hash_not_trimmed:
  "build_stg_orders toy_casts demo_raw_orders = Inr demo_staged_orders \<and>
   map o_email demo_staged_orders = [Some '' A@b.com '', Some ''c@d.com''] \<and>
   dc_customer_id_hash (build_dim_customer toy_sha256_hex 1 demo_staged_orders [] ! 0)
     = Some (toy_sha256_hex '' a@b.com '') \<and>
   customer_id_hash_of toy_sha256_hex (Some '' A@b.com '') = Some (toy_sha256_hex '' a@b.com '') \<and>
   hash_email toy_sha256_hex (Some '' A@b.com '') = toy_sha256_hex ''a@b.com'' \<and>
   toy_sha256_hex '' a@b.com '' \<noteq> toy_sha256_hex ''a@b.com''"
  by code_simp

lemma dim_customer_hash:
  assumes "dc \<in> set (build_dim_customer H k orders customers)"
  shows "\<exists>so \<in> set orders. \<exists>e. o_email so = Some e \<and> e \<noteq> [] \<and>
           dc_customer_id_hash dc = Some (H (lower e))"
proof -
  from assms obtain key oc cu cs where
    d: "dc = dim_customer_row H (key, ((oc, cu), cs))"
    and oc: "oc \<in> set (order_customers orders)"
    by (rule in_build_dim_customer)
  from in_order_customers [OF oc] obtain so e where "so \<in> set orders" "o_email so = Some e" "e \<noteq> []"
    "oc_email oc = Some e"
    by (auto simp: not_blank_def split: option.splits)
  with d show ?thesis
    by (auto simp: dim_customer_row_def customer_id_hash_of_def)
qed

lemma shipping_method_rows_of_dim:
  "map shipping_method_row (build_dim_shipping_method k orders) = shipping_method_rows orders"
proof -
  have "map shipping_method_row (build_dim_shipping_method k orders)
        = map snd (with_keys k (shipping_method_rows orders))"
    unfolding build_dim_shipping_method_def
    by (auto simp: shipping_method_row_def)
  then show ?thesis by (simp only: snd_with_keys)
qed

text \<open>
  Claim C6.  After a dimension build \<open>warehouse.dim_shipping_method\<close> is not empty; its
  rows are distinct, its codes are exactly the normalised shipping methods of the staged
  orders with a non-empty shipping method, and the fallback row
  \<open>('unknown', 'Unknown', false)\<close> is added if and only if no staged order has a
  non-empty shipping method.
\<close>

theorem C6_shipping_method_dimension:
  "build_dim_shipping_method k orders \<noteq> [] \<and>
   distinct (map shipping_method_row (build_dim_shipping_method k orders)) \<and>
   set (map shipping_method_row (build_dim_shipping_method k orders)) =
     (\<lambda>so. (shipping_method_code_of (o_shipping_method so), o_shipping_method so,
             map_option (\<lambda>m. contains ''local'' (lower m)) (o_shipping_method so)))
       ` {so \<in> set orders. not_blank (o_shipping_method so)}
     \<union> (if \<exists>so \<in> set orders. not_blank (o_shipping_method so) then {}
        else {(Some ''unknown'', Some ''Unknown'', Some False)}) \<and>
   set (map sm_shipping_method_code (build_dim_shipping_method k orders)) =
     (\<lambda>so. shipping_method_code_of (o_shipping_method so))
       ` {so \<in> set orders. not_blank (o_shipping_method so)}
     \<union> (if \<exists>so \<in> set orders. not_blank (o_shipping_method so) then {} else {Some ''unknown''})"
proof -
  let ?dim = "build_dim_shipping_method k orders"
  let ?row = "\<lambda>so. (shipping_method_code_of (o_shipping_method so), o_shipping_method so,
             map_option (\<lambda>m. contains ''local'' (lower m)) (o_shipping_method so))"
  let ?kept = "{so \<in> set orders. not_blank (o_shipping_method so)}"
  have rows: "set (shipping_method_rows orders) = ?row ` ?kept
     \<union> (if \<exists>so \<in> set orders. not_blank (o_shipping_method so) then {}
        else {(Some ''unknown'', Some ''Unknown'', Some False)})"
    by (auto simp: shipping_method_rows_def)
  have r: "set (map shipping_method_row ?dim) = ?row ` ?kept
     \<union> (if \<exists>so \<in> set orders. not_blank (o_shipping_method so) then {}
        else {(Some ''unknown'', Some ''Unknown'', Some False)})"
    using rows by (simp only: shipping_method_rows_of_dim)
  have d: "distinct (map shipping_method_row ?dim)"
    by (simp only: shipping_method_rows_of_dim) (simp add: shipping_method_rows_def)
  have "set (shipping_method_rows orders) \<noteq> {}"
    unfolding rows by auto
  then have "shipping_method_rows orders \<noteq> []" by auto
  then have "map shipping_method_row ?dim \<noteq> []" by (simp add: shipping_method_rows_of_dim)
  then have n: "?dim \<noteq> []" by auto
  have "map sm_shipping_method_code ?dim = map fst (map shipping_method_row ?dim)"
    by (simp add: shipping_method_row_def comp_def)
  then have "set (map sm_shipping_method_code ?dim) = fst ` set (map shipping_method_row ?dim)"
    by (metis set_map)
  also have "\<dots> = (\<lambda>so. shipping_method_code_of (o_shipping_method so)) ` ?kept
     \<union> (if \<exists>so \<in> set orders. not_blank (o_shipping_method so) then {} else {Some ''unknown''})"
    unfolding r by (auto simp: image_Un image_image)
  finally show ?thesis using n d r by blast
qed

theorem C6_shipping_method_dimension_witness:
  "set (map sm_shipping_method_code (build_dim_shipping_method 1 (in_orders demo_db)))
     = {Some ''local_delivery'', Some ''standard''} \<and>
   set (map shipping_method_row (build_dim_shipping_method 1 []))
     = {(Some ''unknown'', Some ''Unknown'', Some False)}"
proof -
  have a: "(\<lambda>so. shipping_method_code_of (o_shipping_method so))
       ` {so \<in> set (in_orders demo_db). not_blank (o_shipping_method so)}
     \<union> (if \<exists>so \<in> set (in_orders demo_db). not_blank (o_shipping_method so) then {} else {Some ''unknown''})
     = {Some ''local_delivery'', Some ''standard''}"
    by code_simp
  from C6_shipping_method_dimension [of 1 "in_orders demo_db"] a
  have "set (map sm_shipping_method_code (build_dim_shipping_method 1 (in_orders demo_db)))
     = {Some ''local_delivery'', Some ''standard''}" by simp
  moreover from C6_shipping_method_dimension [of 1 "[]"]
  have "set (map shipping_method_row (build_dim_shipping_method 1 []))
     = {(Some ''unknown'', Some ''Unknown'', Some False)}" by simp
  ultimately show ?thesis by simp
qed

section \<open>Line numbers of staged order lines\<close>










section \<open>Schema initialisation\<close>

lemma run_statement_Inr: "\<exists>st'. run_statement execute stmt st = Inr st'"
  by (cases st) (auto simp: run_statement_def split: sum.splits)

lemma py_for_Inr:
  "(\<And>x st. \<exists>st'. body x st = Inr st') \<Longrightarrow> \<exists>st'. py_for body xs st = Inr st'"
proof (induction xs arbitrary: st)
  case Nil
  show ?case by simp
next
  case (Cons x xs)
  from Cons.prems obtain st1 where "body x st = Inr st1" by blast
  moreover from Cons.IH [OF Cons.prems] obtain st2 where "py_for body xs st1 = Inr st2" by blast
  ultimately show ?case by simp
qed

lemma run_schema_file_Inr: "\<exists>st'. run_schema_file execute sf st = Inr st'"
proof -
  obtain f sql db logs where "sf = (f, sql)" "st = (db, logs)" by (cases sf; cases st) auto
  then show ?thesis
    using py_for_Inr [of "run_statement execute", OF run_statement_Inr]
    by (simp add: run_schema_file_def)
qed

lemma init_database_Inr: "\<exists>st'. init_database execute schema_dir st = Inr st'"
proof -
  from py_for_Inr [of "run_schema_file execute", OF run_schema_file_Inr]
  obtain st1 where "py_for (run_schema_file execute)
             (sort_key fst (filter (\<lambda>(f, sql). endswith f ''.sql'') schema_dir)) st = Inr st1"
    by blast
  then show ?thesis by (cases st1) (simp add: init_database_def)
qed

lemma stage_Inr: "(\<And>d. \<exists>d'. f d = Inr d') \<Longrightarrow> \<exists>st'. stage f st = Inr st'"
proof -
  assume a: "\<And>d. \<exists>d'. f d = Inr d'"
  obtain db logs where s: "st = (db, logs)" by (cases st) auto
  from a obtain d' where "f db = Inr d'" by blast
  with s show ?thesis by (simp add: stage_def)
qed

text \<open>
  Claim C7, as the code has it.  During schema initialisation every statement failure is
  caught and rolled back and the loop goes on with the next statement: a failure whose
  message, in lower case, does not contain \<open>already exists\<close> is logged as a warning, one
  whose message contains it is passed over in silence.  \<open>init_database\<close> therefore never
  raises, and when the later stages do not raise the run ends with exit status 0
  whatever the schema statements did.
\<close>

theorem C7_schema_failures_do_not_abort:
  "(\<exists>st'. init_database execute schema_dir st = Inr st') \<and>
   (has_code stmt \<and> execute db stmt = Inl e \<longrightarrow>
      run_statement execute stmt (db, logs) =
        Inr (db, if contains ''already exists'' (lower e) then logs
                 else logs @ [LogWarning (''Statement warning: '' @ e)])) \<and>
   ((\<forall>d. \<exists>d'. env_load_raw_data env use_sample d = Inr d') \<and>
    (\<forall>d. \<exists>d'. env_build_staging_tables env d = Inr d') \<and>
    (\<forall>d. \<exists>d'. env_build_dimensions env d = Inr d') \<and>
    (\<forall>d. \<exists>d'. env_build_facts env d = Inr d') \<and>
    (\<forall>d. \<exists>d'. env_build_marts env d = Inr d') \<longrightarrow>
      main env step use_sample st0 = 0)"
proof (intro conjI impI)
  show "\<exists>st'. init_database execute schema_dir st = Inr st'" by (rule init_database_Inr)
next
  assume "has_code stmt \<and> execute db stmt = Inl e"
  then show "run_statement execute stmt (db, logs) =
        Inr (db, if contains ''already exists'' (lower e) then logs
                 else logs @ [LogWarning (''Statement warning: '' @ e)])"
    by (simp add: run_statement_def)
next
  assume a: "(\<forall>d. \<exists>d'. env_load_raw_data env use_sample d = Inr d') \<and>
    (\<forall>d. \<exists>d'. env_build_staging_tables env d = Inr d') \<and>
    (\<forall>d. \<exists>d'. env_build_dimensions env d = Inr d') \<and>
    (\<forall>d. \<exists>d'. env_build_facts env d = Inr d') \<and>
    (\<forall>d. \<exists>d'. env_build_marts env d = Inr d')"
  have load: "\<exists>st1. (if step = All \<or> step = Load
              then py_then (init_database (env_execute env) (env_schema_dir env) st0)
                     (stage (env_load_raw_data env use_sample))
              else Inr st0) = Inr st1"
  proof (cases "step = All \<or> step = Load")
    case True
    obtain sta where "init_database (env_execute env) (env_schema_dir env) st0 = Inr sta"
      using init_database_Inr by blast
    moreover obtain stb where "stage (env_load_raw_data env use_sample) sta = Inr stb"
      using stage_Inr [of "env_load_raw_data env use_sample" sta] a by blast
    ultimately show ?thesis using True by (simp add: py_then_def)
  next
    case False
    then show ?thesis by simp
  qed
  then obtain st1 where l: "(if step = All \<or> step = Load
              then py_then (init_database (env_execute env) (env_schema_dir env) st0)
                     (stage (env_load_raw_data env use_sample))
              else Inr st0) = Inr st1" by blast
  obtain st2 where s2: "stage (env_build_staging_tables env) st1 = Inr st2"
    using stage_Inr [of "env_build_staging_tables env" st1] a by blast
  obtain st3 where s3: "stage (env_build_dimensions env) st2 = Inr st3"
    using stage_Inr [of "env_build_dimensions env" st2] a by blast
  obtain st4 where s4: "stage (env_build_facts env) st3 = Inr st4"
    using stage_Inr [of "env_build_facts env" st3] a by blast
  obtain st5 where s5: "stage (env_build_marts env) st4 = Inr st5"
    using stage_Inr [of "env_build_marts env" st4] a by blast
  have "\<exists>st'. run_pipeline env step use_sample st0 = Inr st'"
    unfolding run_pipeline_def l using s2 s3 s4 s5 by (simp add: py_then_def)
  then show "main env step use_sample st0 = 0"
    by (auto simp: main_def)
qed

theorem C7_schema_failures_do_not_abort_witness:
  "run_statement demo_execute ''CREATE TABL b (x int)'' (0, []) =
     Inr (0, [LogWarning ''Statement warning: syntax error at or near TABL'']) \<and>
   main demo_env All False (0, []) = 0"
proof -
  have h: "has_code ''CREATE TABL b (x int)'' \<and>
           demo_execute 0 ''CREATE TABL b (x int)'' = Inl ''syntax error at or near TABL''"
    by code_simp
  have c: "contains ''already exists'' (lower ''syntax error at or near TABL'') = False"
    by code_simp
  have s: "(\<forall>d. \<exists>d'. env_load_raw_data demo_env False d = Inr d') \<and>
    (\<forall>d. \<exists>d'. env_build_staging_tables demo_env d = Inr d') \<and>
    (\<forall>d. \<exists>d'. env_build_dimensions demo_env d = Inr d') \<and>
    (\<forall>d. \<exists>d'. env_build_facts demo_env d = Inr d') \<and>
    (\<forall>d. \<exists>d'. env_build_marts demo_env d = Inr d')"
    by (simp add: demo_env_def)
  from C7_schema_failures_do_not_abort
    [of demo_execute "[]" "(0, [])" "''CREATE TABL b (x int)''" 0 "''syntax error at or near TABL''"
        "[]" demo_env False All "(0, [])"] h s c
  show ?thesis by simp
qed

theorem C7_schema_failure_counterexample:
  "init_database demo_execute (env_schema_dir demo_env) (0, []) =
     Inr (1, [LogInfo ''Executing 01_schema.sql...'',
              LogWarning ''Statement warning: syntax error at or near TABL'',
              LogInfo ''Database schemas initialized!'']) \<and>
   \<not> contains ''already exists'' (lower ''syntax error at or near TABL'') \<and>
   main demo_env All False (0, []) = 0 \<and>
   main demo_env Load False (0, []) \<noteq> 1"
  by code_simp

end
